theory Spec2Isabelle
  imports Main "HOL-Library.Char_ord" "HOL-Library.List_Lexorder"
begin

section \<open>Messaging core of mini-office: data model\<close>

text \<open>
  The embedding follows three source units: the Message schema with its hooks, methods and
  statics (models/Message.js), the REST router for messages (routes/messages.js) and the
  socket handlers (socket/socketHandlers.js).

  An identity (a MongoDB ObjectId) is modelled by its canonical string, the value of
  \<^verbatim>\<open>toString()\<close>: 24 lower-case hexadecimal digits. Strings are sequences of code units;
  \<open>length\<close> is JavaScript's \<^verbatim>\<open>.length\<close>, and the order on strings is the lexicographic
  order on code units that \<^verbatim>\<open>Array.prototype.sort\<close> uses by default. A point in time
  (a \<^verbatim>\<open>Date\<close>) is its number of milliseconds since the epoch.
\<close>

type_synonym oid = string
type_synonym time = int

record reaction =
  r_user :: oid
  r_emoji :: string
  r_createdAt :: time

record read_entry =
  rb_user :: oid
  readAt :: time

record edited_info =
  isEdited :: bool
  editedAt :: "time option"
  originalContent :: "string option"

record attachment =
  a_type :: string
  a_url :: string
  a_filename :: string
  a_size :: nat
  a_publicId :: string

text \<open>
  A Message document. \<open>None\<close> is the schema's \<^verbatim>\<open>null\<close> default. The schema option
  \<^verbatim>\<open>timestamps: true\<close> adds \<open>createdAt\<close> and \<open>updatedAt\<close>.
\<close>

record message =
  msg_id :: oid
  sender :: oid
  content :: string
  mtype :: string
  attachments :: "attachment list"
  msg_group :: "oid option"
  recipient :: "oid option"
  conversation :: "string option"
  replyTo :: "oid option"
  reactions :: "reaction list"
  readBy :: "read_entry list"
  edited :: edited_info
  isDeleted :: bool
  deletedAt :: "time option"
  mentions :: "oid list"
  createdAt :: time
  updatedAt :: time

subsection \<open>Conversation identity\<close>

text \<open>
  \<^verbatim>\<open>ids.join('_')\<close>: the elements separated by the separator.
\<close>

fun js_join :: "string \<Rightarrow> string list \<Rightarrow> string" where
  "js_join sep [] = []"
| "js_join sep [x] = x"
| "js_join sep (x # y # ys) = x @ sep @ js_join sep (y # ys)"

text \<open>
  The key derivation that the pre-save hook, \<^verbatim>\<open>getConversation\<close> and the conversation
  search each write out:
  \<^verbatim>\<open>const ids = [a.toString(), b.toString()].sort(); ids.join('_')\<close>.
\<close>

definition conversationId :: "oid \<Rightarrow> oid \<Rightarrow> string" where
  "conversationId a b = js_join ''_'' (sort [a, b])"

subsection \<open>Collections\<close>

record user =
  u_id :: oid
  u_name :: string
  u_avatar :: string
  joinedGroups :: "oid list"

text \<open>
  A Group document, as far as the messaging code reads and writes it: \<open>g_members\<close> holds
  the \<^verbatim>\<open>user\<close> field of each entry of \<^verbatim>\<open>members\<close>, \<open>g_totalMessages\<close> is
  \<^verbatim>\<open>stats.totalMessages\<close>.
\<close>

record grp =
  g_id :: oid
  g_name :: string
  g_owner :: oid
  g_admins :: "oid list"
  g_members :: "oid list"
  g_totalMessages :: nat

record db =
  messages :: "message list"
  users :: "user list"
  groups :: "grp list"

datatype store_error =
  ValidationError string
| CastError
| BadValue string
| DocumentNotFound

text \<open>
  What a handler answers when it does not succeed: an HTTP status with its message, an
  \<^verbatim>\<open>error\<close> event sent to the socket, or a silent return.
\<close>

datatype error =
  HttpError nat string
| SocketError string
| Ignored

subsection \<open>Casting request parameters to identities\<close>

definition isHexDigit :: "char \<Rightarrow> bool" where
  "isHexDigit c = (c \<in> set ''0123456789abcdefABCDEF'')"

text \<open>\<^verbatim>\<open>isMongoId\<close> of the validator library: 24 hexadecimal digits.\<close>

definition isMongoId :: "string \<Rightarrow> bool" where
  "isMongoId s = (length s = 24 \<and> list_all isHexDigit s)"

definition hexLower :: "char \<Rightarrow> char" where
  "hexLower c =
     (if c = CHR ''A'' then CHR ''a'' else if c = CHR ''B'' then CHR ''b''
      else if c = CHR ''C'' then CHR ''c'' else if c = CHR ''D'' then CHR ''d''
      else if c = CHR ''E'' then CHR ''e'' else if c = CHR ''F'' then CHR ''f'' else c)"

text \<open>
  The cast that Mongoose applies to a string where the schema declares an ObjectId: a
  string of 24 hexadecimal digits names the identity with these digits, whose canonical
  string is in lower case; any other string is taken to fail the cast (the exception the
  handlers catch). The driver's second input form, a raw string of 12 bytes, is not
  modelled.
\<close>

definition castObjectId :: "string \<Rightarrow> oid option" where
  "castObjectId s = (if isMongoId s then Some (map hexLower s) else None)"

definition findUserById :: "db \<Rightarrow> string \<Rightarrow> store_error + user option" where
  "findUserById d i =
     (case castObjectId i of
        None \<Rightarrow> Inl CastError
      | Some k \<Rightarrow> Inr (find (\<lambda>u. u_id u = k) (users d)))"

definition findGroupById :: "db \<Rightarrow> string \<Rightarrow> store_error + grp option" where
  "findGroupById d i =
     (case castObjectId i of
        None \<Rightarrow> Inl CastError
      | Some k \<Rightarrow> Inr (find (\<lambda>g. g_id g = k) (groups d)))"

definition findMessageById :: "db \<Rightarrow> string \<Rightarrow> store_error + message option" where
  "findMessageById d i =
     (case castObjectId i of
        None \<Rightarrow> Inl CastError
      | Some k \<Rightarrow> Inr (find (\<lambda>m. msg_id m = k) (messages d)))"

text \<open>\<^verbatim>\<open>groupSchema.methods.isMember\<close>.\<close>

definition isMember :: "grp \<Rightarrow> oid \<Rightarrow> bool" where
  "isMember g userId = list_ex (\<lambda>m. m = userId) (g_members g)"


subsection \<open>Validation, the pre-save hook and saving\<close>

text \<open>
  The schema's validators: \<^verbatim>\<open>content\<close> is required (an empty string does not satisfy
  \<^verbatim>\<open>required\<close>) and has at most 2000 code units; \<^verbatim>\<open>type\<close> is one of the enumerated
  strings.
\<close>

definition validate_content :: "string \<Rightarrow> store_error option" where
  "validate_content c =
     (if c = [] then Some (ValidationError ''Message content is required'')
      else if 2000 < length c then
        Some (ValidationError ''Message cannot be more than 2000 characters'')
      else None)"

definition validate_type :: "string \<Rightarrow> store_error option" where
  "validate_type t =
     (if t \<in> set [''text'', ''image'', ''file'', ''system''] then None
      else Some (ValidationError ''type is not a valid enum value''))"

definition validate :: "message \<Rightarrow> store_error option" where
  "validate m =
     (case validate_content (content m) of
        Some e \<Rightarrow> Some e
      | None \<Rightarrow> validate_type (mtype m))"

text \<open>
  \<^verbatim>\<open>messageSchema.pre('save')\<close>. The flag is \<^verbatim>\<open>this.isModified('content')\<close>. The
  mention scan computes a list that is not used: the field is set to the empty list.
\<close>

definition pre_save :: "bool \<Rightarrow> message \<Rightarrow> message" where
  "pre_save contentModified this =
     (let this1 =
        (case recipient this of
           Some r \<Rightarrow>
             if msg_group this = None
             then this\<lparr>conversation := Some (conversationId (sender this) r)\<rparr>
             else this
         | None \<Rightarrow> this)
      in if contentModified then this1\<lparr>mentions := []\<rparr> else this1)"

text \<open>
  \<^verbatim>\<open>new Message({sender, content, type, group, recipient, replyTo})\<close>: the given paths
  and the schema's defaults. The identity is generated by the driver and is a parameter; the
  two timestamps are set by the first save.
\<close>

definition newMessage ::
  "oid \<Rightarrow> oid \<Rightarrow> string \<Rightarrow> string \<Rightarrow> oid option \<Rightarrow> oid option \<Rightarrow> oid option \<Rightarrow> message" where
  "newMessage newId s c t g r rep =
     \<lparr>msg_id = newId, sender = s, content = c, mtype = t, attachments = [],
      msg_group = g, recipient = r, conversation = None, replyTo = rep,
      reactions = [], readBy = [],
      edited = \<lparr>isEdited = False, editedAt = None, originalContent = None\<rparr>,
      isDeleted = False, deletedAt = None, mentions = [], createdAt = 0, updatedAt = 0\<rparr>"

text \<open>
  \<^verbatim>\<open>save()\<close> of a new document: validation, the pre-save hook, the timestamps, and
  the insert. A failed validation throws and writes nothing.
\<close>

definition save_new :: "db \<Rightarrow> message \<Rightarrow> time \<Rightarrow> (store_error + message) \<times> db" where
  "save_new d this now =
     (case validate this of
        Some e \<Rightarrow> (Inl e, d)
      | None \<Rightarrow>
          (let doc = (pre_save True this)\<lparr>createdAt := now, updatedAt := now\<rparr>
           in (Inr doc, d\<lparr>messages := messages d @ [doc]\<rparr>)))"

text \<open>
  \<^verbatim>\<open>save()\<close> of a document that was loaded from the collection. Mongoose tracks the
  modified paths: the tracked state is modelled by comparing with the stored document of the
  same identity. Nothing modified: nothing is written. Otherwise the validators of the
  modified paths run (of the paths the methods below assign, only \<^verbatim>\<open>content\<close> has
  validators), the pre-save hook runs, \<^verbatim>\<open>updatedAt\<close> is set and the stored document
  is replaced (identities are unique in a collection).
\<close>

definition save :: "db \<Rightarrow> message \<Rightarrow> time \<Rightarrow> (store_error + message) \<times> db" where
  "save d this now =
     (case find (\<lambda>m. msg_id m = msg_id this) (messages d) of
        None \<Rightarrow> (Inl DocumentNotFound, d)
      | Some old \<Rightarrow>
          if this = old then (Inr this, d)
          else
            (case (if content this = content old then None
                   else validate_content (content this)) of
               Some e \<Rightarrow> (Inl e, d)
             | None \<Rightarrow>
                 (let doc = (pre_save (content this \<noteq> content old) this)\<lparr>updatedAt := now\<rparr>
                  in (Inr doc,
                      d\<lparr>messages :=
                          map (\<lambda>m. if msg_id m = msg_id this then doc else m) (messages d)\<rparr>))))"

subsection \<open>Document methods\<close>

text \<open>
  Each method mutates the in-memory document \<open>this\<close> and saves it. The model returns the
  method's result with the document as it is afterwards, and the collection.
\<close>

definition addReaction ::
  "db \<Rightarrow> message \<Rightarrow> oid \<Rightarrow> string \<Rightarrow> time \<Rightarrow> (store_error + bool \<times> message) \<times> db" where
  "addReaction d this userId emoji now =
     (case find (\<lambda>r. r_user r = userId \<and> r_emoji r = emoji) (reactions this) of
        None \<Rightarrow>
          (case save d (this\<lparr>reactions := reactions this @
                          [\<lparr>r_user = userId, r_emoji = emoji, r_createdAt = now\<rparr>]\<rparr>) now of
             (Inl e, d') \<Rightarrow> (Inl e, d')
           | (Inr doc, d') \<Rightarrow> (Inr (True, doc), d'))
      | Some existingReaction \<Rightarrow> (Inr (False, this), d))"

definition removeReaction ::
  "db \<Rightarrow> message \<Rightarrow> oid \<Rightarrow> string \<Rightarrow> time \<Rightarrow> (store_error + message) \<times> db" where
  "removeReaction d this userId emoji now =
     save d (this\<lparr>reactions :=
                filter (\<lambda>r. \<not> (r_user r = userId \<and> r_emoji r = emoji)) (reactions this)\<rparr>) now"

definition markAsRead ::
  "db \<Rightarrow> message \<Rightarrow> oid \<Rightarrow> time \<Rightarrow> (store_error + message) \<times> db" where
  "markAsRead d this userId now =
     (let alreadyRead = list_ex (\<lambda>r. rb_user r = userId) (readBy this)
      in if \<not> alreadyRead
         then save d (this\<lparr>readBy := readBy this @ [\<lparr>rb_user = userId, readAt = now\<rparr>]\<rparr>) now
         else (Inr this, d))"

definition editContent ::
  "db \<Rightarrow> message \<Rightarrow> string \<Rightarrow> time \<Rightarrow> (store_error + message) \<times> db" where
  "editContent d this newContent now =
     (let this1 =
        (if \<not> isEdited (edited this)
         then this\<lparr>edited := (edited this)\<lparr>originalContent := Some (content this)\<rparr>\<rparr>
         else this);
          this2 = this1\<lparr>content := newContent\<rparr>;
          this3 = this2\<lparr>edited := (edited this2)\<lparr>isEdited := True\<rparr>\<rparr>;
          this4 = this3\<lparr>edited := (edited this3)\<lparr>editedAt := Some now\<rparr>\<rparr>
      in save d this4 now)"

subsection \<open>Queries\<close>

text \<open>
  A query of the collection. The query builder records the filter, the sort, the skip and
  the limit as options, in whatever order its calls are chained; the server filters, sorts,
  skips and then limits. A negative skip is rejected, a limit of 0 is no limit, and a
  negative limit is its absolute value. Sorting by \<^verbatim>\<open>{ createdAt: -1 }\<close> puts the newest
  first; documents of equal time are kept in their stored order.
\<close>

definition mongo_limit :: "int \<Rightarrow> 'a list \<Rightarrow> 'a list" where
  "mongo_limit n xs = (if n = 0 then xs else take (nat \<bar>n\<bar>) xs)"

definition newest_first :: "message list \<Rightarrow> message list" where
  "newest_first xs = sort_key (\<lambda>m. - createdAt m) xs"

definition find_page ::
  "message list \<Rightarrow> (message \<Rightarrow> bool) \<Rightarrow> int \<Rightarrow> int \<Rightarrow> store_error + message list" where
  "find_page coll cond lim skp =
     (if skp < 0 then Inl (BadValue ''skip'')
      else Inr (mongo_limit lim (drop (nat skp) (newest_first (filter cond coll)))))"

text \<open>
  \<^verbatim>\<open>populate\<close> replaces a reference by the selected paths of the document it names, or
  by \<^verbatim>\<open>null\<close> where no such document is stored. \<^verbatim>\<open>populate('sender', 'name avatar')\<close>
  reads the users; \<^verbatim>\<open>populate('replyTo', 'content sender')\<close> reads the messages, by
  identity alone: it has no filter, and the schema has no query hook that adds one. A
  populated entry is modelled as the document with its own paths, beside the two joined
  values.
\<close>

record sender_view =
  sv_id :: oid
  sv_name :: string
  sv_avatar :: string

record reply_view =
  rv_id :: oid
  rv_content :: string
  rv_sender :: oid

record listed_message =
  lm_doc :: message
  lm_sender :: "sender_view option"
  lm_replyTo :: "reply_view option"

definition sender_view_of :: "user \<Rightarrow> sender_view" where
  "sender_view_of u = \<lparr>sv_id = u_id u, sv_name = u_name u, sv_avatar = u_avatar u\<rparr>"

definition reply_view_of :: "message \<Rightarrow> reply_view" where
  "reply_view_of t = \<lparr>rv_id = msg_id t, rv_content = content t, rv_sender = sender t\<rparr>"

definition populate_sender :: "db \<Rightarrow> message \<Rightarrow> sender_view option" where
  "populate_sender d m = map_option sender_view_of (find (\<lambda>u. u_id u = sender m) (users d))"

definition populate_replyTo :: "db \<Rightarrow> message \<Rightarrow> reply_view option" where
  "populate_replyTo d m =
     (case replyTo m of
        None \<Rightarrow> None
      | Some k \<Rightarrow> map_option reply_view_of (find (\<lambda>t. msg_id t = k) (messages d)))"

definition populate_listed :: "db \<Rightarrow> message \<Rightarrow> listed_message" where
  "populate_listed d m =
     \<lparr>lm_doc = m, lm_sender = populate_sender d m, lm_replyTo = populate_replyTo d m\<rparr>"

text \<open>
  \<^verbatim>\<open>messageSchema.statics.getConversation\<close>:
  \<^verbatim>\<open>.populate('sender', 'name avatar').populate('replyTo', 'content sender')\<close>
  \<^verbatim>\<open>.sort({ createdAt: -1 }).limit(limit * page).skip((page - 1) * limit)\<close>.
  The two identities are rendered with \<^verbatim>\<open>toString()\<close> and are not cast.
\<close>

definition getConversation ::
  "db \<Rightarrow> string \<Rightarrow> string \<Rightarrow> int \<Rightarrow> int \<Rightarrow> store_error + listed_message list" where
  "getConversation d userId1 userId2 page limit =
     (let conversationId = conversationId userId1 userId2
      in case find_page (messages d)
                (\<lambda>m. conversation m = Some conversationId \<and> isDeleted m = False)
                (limit * page) ((page - 1) * limit) of
           Inl e \<Rightarrow> Inl e
         | Inr docs \<Rightarrow> Inr (map (populate_listed d) docs))"

text \<open>
  \<^verbatim>\<open>messageSchema.statics.getGroupMessages\<close>, with the same two \<^verbatim>\<open>populate\<close> calls;
  the filter casts \<^verbatim>\<open>groupId\<close>.
\<close>

definition getGroupMessages ::
  "db \<Rightarrow> string \<Rightarrow> int \<Rightarrow> int \<Rightarrow> store_error + listed_message list" where
  "getGroupMessages d groupId page limit =
     (case castObjectId groupId of
        None \<Rightarrow> Inl CastError
      | Some g \<Rightarrow>
          (case find_page (messages d)
                  (\<lambda>m. msg_group m = Some g \<and> isDeleted m = False)
                  (limit * page) ((page - 1) * limit) of
             Inl e \<Rightarrow> Inl e
           | Inr docs \<Rightarrow> Inr (map (populate_listed d) docs)))"

text \<open>
  \<^verbatim>\<open>Message.updateMany(filter, update)\<close>: every document that matches is updated.
  With \<^verbatim>\<open>timestamps: true\<close> in the schema, Mongoose adds the new \<^verbatim>\<open>updatedAt\<close> to
  the update.
\<close>

definition updateMany :: "db \<Rightarrow> (message \<Rightarrow> bool) \<Rightarrow> (message \<Rightarrow> message) \<Rightarrow> time \<Rightarrow> db" where
  "updateMany d cond upd now =
     d\<lparr>messages := map (\<lambda>m. if cond m then (upd m)\<lparr>updatedAt := now\<rparr> else m) (messages d)\<rparr>"

text \<open>
  The filter \<^verbatim>\<open>'readBy.user': { $ne: u }\<close>: no entry of the array has this user.
\<close>

definition notReadBy :: "oid \<Rightarrow> message \<Rightarrow> bool" where
  "notReadBy u m = (\<not> list_ex (\<lambda>r. rb_user r = u) (readBy m))"

text \<open>The update \<^verbatim>\<open>$push: { readBy: { user: u } }\<close>; \<^verbatim>\<open>readAt\<close> defaults to now.\<close>

definition pushReadBy :: "oid \<Rightarrow> time \<Rightarrow> message \<Rightarrow> message" where
  "pushReadBy u now m = m\<lparr>readBy := readBy m @ [\<lparr>rb_user = u, readAt = now\<rparr>]\<rparr>"

subsection \<open>REST handlers\<close>

text \<open>
  Each handler takes the collections, the authenticated user that the authentication
  middleware put into the request, the request's parameters and the clock, and returns its
  answer with the collections as they are afterwards. Events pushed to sockets do not touch
  the collections and are left out. A send route answers with the created message; the
  \<^verbatim>\<open>populate\<close> of its sender, for the answer only, is not modelled.
\<close>

definition isSpace :: "char \<Rightarrow> bool" where
  "isSpace c = (c \<in> set [CHR '' '', CHR 0x09, CHR 0x0A, CHR 0x0B, CHR 0x0C, CHR 0x0D, CHR 0xA0])"

definition js_trim :: "string \<Rightarrow> string" where
  "js_trim s = rev (dropWhile isSpace (rev (dropWhile isSpace s)))"

text \<open>\<^verbatim>\<open>parseInt(v) || dflt\<close>; \<open>None\<close> is an absent or non-numeric value.\<close>

definition parseIntOr :: "int option \<Rightarrow> int \<Rightarrow> int" where
  "parseIntOr v dflt = (case v of None \<Rightarrow> dflt | Some n \<Rightarrow> if n = 0 then dflt else n)"

text \<open>
  Modelled from the spec: the middleware \<^verbatim>\<open>requireGroupMember()\<close> of middleware/auth.js,
  which is not among the sources. The spec names it the group-membership gate
  (\<open>isMember(groupId, userId)\<close>); the statuses of its refusals are not specified.
\<close>

definition requireGroupMember :: "db \<Rightarrow> user \<Rightarrow> string \<Rightarrow> error + grp" where
  "requireGroupMember d req_user groupId =
     (case findGroupById d groupId of
        Inl e \<Rightarrow> Inl (HttpError 500 ''Server error'')
      | Inr None \<Rightarrow> Inl (HttpError 404 ''Group not found'')
      | Inr (Some g) \<Rightarrow>
          if isMember g (u_id req_user) then Inr g
          else Inl (HttpError 403 ''Access denied''))"

record page_result =
  pr_messages :: "listed_message list"
  pr_page :: int
  pr_hasMore :: bool

text \<open>\<^verbatim>\<open>router.get('/conversations/:userId')\<close>.\<close>

definition get_conversation_messages ::
  "db \<Rightarrow> user \<Rightarrow> string \<Rightarrow> int option \<Rightarrow> int option \<Rightarrow> time \<Rightarrow> (error + page_result) \<times> db" where
  "get_conversation_messages d req_user userId qpage qlimit now =
     (let page = parseIntOr qpage 1; limit = parseIntOr qlimit 50
      in case findUserById d userId of
           Inl e \<Rightarrow> (Inl (HttpError 500 ''Server error''), d)
         | Inr None \<Rightarrow> (Inl (HttpError 404 ''User not found''), d)
         | Inr (Some otherUser) \<Rightarrow>
             (case getConversation d (u_id req_user) userId page limit of
                Inl e \<Rightarrow> (Inl (HttpError 500 ''Server error''), d)
              | Inr msgs \<Rightarrow>
                  (let d' = updateMany d
                       (\<lambda>m. Some (sender m) = castObjectId userId \<and>
                            recipient m = Some (u_id req_user) \<and>
                            notReadBy (u_id req_user) m)
                       (pushReadBy (u_id req_user) now) now
                   in (Inr \<lparr>pr_messages = rev msgs, pr_page = page,
                             pr_hasMore = (int (length msgs) = limit)\<rparr>, d'))))"

text \<open>\<^verbatim>\<open>router.get('/groups/:groupId')\<close>, behind the membership gate.\<close>

definition get_group_messages ::
  "db \<Rightarrow> user \<Rightarrow> string \<Rightarrow> int option \<Rightarrow> int option \<Rightarrow> time \<Rightarrow> (error + page_result) \<times> db" where
  "get_group_messages d req_user groupId qpage qlimit now =
     (case requireGroupMember d req_user groupId of
        Inl e \<Rightarrow> (Inl e, d)
      | Inr g \<Rightarrow>
          (let page = parseIntOr qpage 1; limit = parseIntOr qlimit 50
           in case getGroupMessages d groupId page limit of
                Inl e \<Rightarrow> (Inl (HttpError 500 ''Server error''), d)
              | Inr msgs \<Rightarrow>
                  (let d' = updateMany d
                       (\<lambda>m. msg_group m = castObjectId groupId \<and>
                            sender m \<noteq> u_id req_user \<and>
                            notReadBy (u_id req_user) m)
                       (pushReadBy (u_id req_user) now) now
                   in (Inr \<lparr>pr_messages = rev msgs, pr_page = page,
                             pr_hasMore = (int (length msgs) = limit)\<rparr>, d'))))"

text \<open>
  The validation chains of the two send routes: \<^verbatim>\<open>content\<close> is trimmed and must have 1
  to 2000 characters, \<^verbatim>\<open>type\<close> is optional and one of three strings.
\<close>

definition valid_content :: "string \<Rightarrow> bool" where
  "valid_content c = (1 \<le> length c \<and> length c \<le> 2000)"

definition valid_type :: "string option \<Rightarrow> bool" where
  "valid_type t = (case t of None \<Rightarrow> True | Some x \<Rightarrow> x \<in> set [''text'', ''image'', ''file''])"

definition type_or_text :: "string option \<Rightarrow> string" where
  "type_or_text t = (case t of None \<Rightarrow> ''text'' | Some x \<Rightarrow> x)"

text \<open>\<^verbatim>\<open>router.post('/direct')\<close>.\<close>

definition post_direct ::
  "db \<Rightarrow> user \<Rightarrow> string \<Rightarrow> string \<Rightarrow> string option \<Rightarrow> oid \<Rightarrow> time \<Rightarrow> (error + message) \<times> db" where
  "post_direct d req_user recipient_p content_p type_p newId now =
     (let content = js_trim content_p
      in if isMongoId recipient_p \<and> valid_content content \<and> valid_type type_p
         then
           (case findUserById d recipient_p of
              Inl e \<Rightarrow> (Inl (HttpError 500 ''Server error''), d)
            | Inr None \<Rightarrow> (Inl (HttpError 404 ''Recipient not found''), d)
            | Inr (Some recipientUser) \<Rightarrow>
                (case save_new d
                        (newMessage newId (u_id req_user) content (type_or_text type_p)
                           None (castObjectId recipient_p) None) now of
                   (Inl e, d') \<Rightarrow> (Inl (HttpError 500 ''Server error''), d')
                 | (Inr message, d') \<Rightarrow> (Inr message, d')))
         else (Inl (HttpError 400 ''Validation failed''), d))"

text \<open>
  \<^verbatim>\<open>router.post('/groups/:groupId')\<close>, behind the membership gate; \<^verbatim>\<open>replyTo\<close> is
  optional and a MongoId. After the save the group's message counter is incremented.
\<close>

text \<open>
  \<^verbatim>\<open>if (replyTo) { messageData.replyTo = replyTo; }\<close>, with the schema's cast.
\<close>

definition replyTo_of :: "string option \<Rightarrow> oid option" where
  "replyTo_of r = (case r of None \<Rightarrow> None | Some x \<Rightarrow> if x = [] then None else castObjectId x)"

definition incTotalMessages :: "db \<Rightarrow> oid \<Rightarrow> db" where
  "incTotalMessages d g =
     d\<lparr>groups := map (\<lambda>x. if g_id x = g then x\<lparr>g_totalMessages := g_totalMessages x + 1\<rparr> else x)
                   (groups d)\<rparr>"

definition post_group ::
  "db \<Rightarrow> user \<Rightarrow> string \<Rightarrow> string \<Rightarrow> string option \<Rightarrow> string option \<Rightarrow> oid \<Rightarrow> time
     \<Rightarrow> (error + message) \<times> db" where
  "post_group d req_user groupId content_p type_p replyTo_p newId now =
     (case requireGroupMember d req_user groupId of
        Inl e \<Rightarrow> (Inl e, d)
      | Inr g \<Rightarrow>
          (let content = js_trim content_p
           in if valid_content content \<and> valid_type type_p \<and>
                 (case replyTo_p of None \<Rightarrow> True | Some r \<Rightarrow> isMongoId r)
              then
                (case save_new d
                        (newMessage newId (u_id req_user) content (type_or_text type_p)
                           (castObjectId groupId) None (replyTo_of replyTo_p)) now of
                   (Inl e, d') \<Rightarrow> (Inl (HttpError 500 ''Server error''), d')
                 | (Inr message, d') \<Rightarrow> (Inr message, incTotalMessages d' (g_id g)))
              else (Inl (HttpError 400 ''Validation failed''), d)))"

text \<open>\<^verbatim>\<open>router.put('/:messageId')\<close>: the edit, allowed to the sender for five minutes.\<close>

definition put_message ::
  "db \<Rightarrow> user \<Rightarrow> string \<Rightarrow> string \<Rightarrow> time \<Rightarrow> (error + message) \<times> db" where
  "put_message d req_user messageId content_p now =
     (let content = js_trim content_p
      in if valid_content content
         then
           (case findMessageById d messageId of
              Inl e \<Rightarrow> (Inl (HttpError 500 ''Server error''), d)
            | Inr None \<Rightarrow> (Inl (HttpError 404 ''Message not found''), d)
            | Inr (Some message) \<Rightarrow>
                if isDeleted message then (Inl (HttpError 404 ''Message not found''), d)
                else if sender message \<noteq> u_id req_user
                then (Inl (HttpError 403 ''You can only edit your own messages''), d)
                else
                  (let fiveMinutesAgo = now - 5 * 60 * 1000
                   in if createdAt message < fiveMinutesAgo
                      then (Inl (HttpError 400 ''Message can only be edited within 5 minutes''), d)
                      else
                        (case editContent d message content now of
                           (Inl e, d') \<Rightarrow> (Inl (HttpError 500 ''Server error''), d')
                         | (Inr doc, d') \<Rightarrow> (Inr doc, d'))))
         else (Inl (HttpError 400 ''Validation failed''), d))"







text \<open>
  \<^verbatim>\<open>router.get('/unread/count')\<close>: the number of documents that match
  \<^verbatim>\<open>$or: [{recipient: u}, {group: {$in: joinedGroups}, sender: {$ne: u}}]\<close>, are not read
  by the user and are not deleted.
\<close>

definition unread_filter :: "user \<Rightarrow> message \<Rightarrow> bool" where
  "unread_filter req_user m =
     ((recipient m = Some (u_id req_user) \<or>
       ((case msg_group m of None \<Rightarrow> False | Some g \<Rightarrow> g \<in> set (joinedGroups req_user)) \<and>
        sender m \<noteq> u_id req_user)) \<and>
      notReadBy (u_id req_user) m \<and> isDeleted m = False)"

definition unread_count :: "db \<Rightarrow> user \<Rightarrow> nat" where
  "unread_count d req_user = length (filter (unread_filter req_user) (messages d))"

text \<open>
  The unread count in the spec's words, to compare with the route: the messages addressed
  to the user (direct, or via one of the user's groups) with a sender other than the user
  and without the user in \<open>readBy\<close>, restricted to non-deleted ones.
\<close>

definition unread_count_spec :: "db \<Rightarrow> user \<Rightarrow> nat" where
  "unread_count_spec d req_user =
     length (filter
       (\<lambda>m. (recipient m = Some (u_id req_user) \<or>
             (case msg_group m of None \<Rightarrow> False | Some g \<Rightarrow> g \<in> set (joinedGroups req_user))) \<and>
            sender m \<noteq> u_id req_user \<and>
            notReadBy (u_id req_user) m \<and> isDeleted m = False)
       (messages d))"

subsection \<open>Socket handlers\<close>

text \<open>
  \<open>socket_userId\<close> is \<^verbatim>\<open>socket.userId\<close>: set by a successful \<^verbatim>\<open>authenticate\<close>, absent
  before. A handler that throws sends an \<^verbatim>\<open>error\<close> event to its own socket.
\<close>

text \<open>\<^verbatim>\<open>socket.on('send_message')\<close>.\<close>

definition send_message ::
  "db \<Rightarrow> oid option \<Rightarrow> string \<Rightarrow> string \<Rightarrow> string option \<Rightarrow> oid \<Rightarrow> time \<Rightarrow> (error + message) \<times> db" where
  "send_message d socket_userId recipientId content_p type_p newId now =
     (case socket_userId of
        None \<Rightarrow> (Inl (SocketError ''Not authenticated''), d)
      | Some userId \<Rightarrow>
          (case findUserById d recipientId of
             Inl e \<Rightarrow> (Inl (SocketError ''Failed to send message''), d)
           | Inr None \<Rightarrow> (Inl (SocketError ''Recipient not found''), d)
           | Inr (Some recipientUser) \<Rightarrow>
               (case save_new d
                       (newMessage newId userId content_p (type_or_text type_p)
                          None (castObjectId recipientId) None) now of
                  (Inl e, d') \<Rightarrow> (Inl (SocketError ''Failed to send message''), d')
                | (Inr message, d') \<Rightarrow> (Inr message, d'))))"

text \<open>
  \<^verbatim>\<open>socket.on('send_group_message')\<close>. A \<^verbatim>\<open>replyTo\<close> that does not cast fails the
  save.
\<close>

definition send_group_message ::
  "db \<Rightarrow> oid option \<Rightarrow> string \<Rightarrow> string \<Rightarrow> string option \<Rightarrow> string option \<Rightarrow> oid \<Rightarrow> time
     \<Rightarrow> (error + message) \<times> db" where
  "send_group_message d socket_userId groupId content_p type_p replyTo_p newId now =
     (case socket_userId of
        None \<Rightarrow> (Inl (SocketError ''Not authenticated''), d)
      | Some userId \<Rightarrow>
          (case findGroupById d groupId of
             Inl e \<Rightarrow> (Inl (SocketError ''Failed to send group message''), d)
           | Inr None \<Rightarrow> (Inl (SocketError ''Access denied to group''), d)
           | Inr (Some g) \<Rightarrow>
               if isMember g userId
               then
                 if (case replyTo_p of None \<Rightarrow> True | Some r \<Rightarrow> r = [] \<or> isMongoId r)
                 then
                   (case save_new d
                           (newMessage newId userId content_p (type_or_text type_p)
                              (castObjectId groupId) None (replyTo_of replyTo_p)) now of
                      (Inl e, d') \<Rightarrow> (Inl (SocketError ''Failed to send group message''), d')
                    | (Inr message, d') \<Rightarrow> (Inr message, d'))
                 else (Inl (SocketError ''Failed to send group message''), d)
               else (Inl (SocketError ''Access denied to group''), d)))"

text \<open>
  \<^verbatim>\<open>socket.on('mark_as_read')\<close>: without authentication, or when the message is not
  found, nothing happens; an exception is logged only.
\<close>

definition mark_as_read :: "db \<Rightarrow> oid option \<Rightarrow> string \<Rightarrow> time \<Rightarrow> (error + message) \<times> db" where
  "mark_as_read d socket_userId messageId now =
     (case socket_userId of
        None \<Rightarrow> (Inl Ignored, d)
      | Some userId \<Rightarrow>
          (case findMessageById d messageId of
             Inl e \<Rightarrow> (Inl Ignored, d)
           | Inr None \<Rightarrow> (Inl Ignored, d)
           | Inr (Some message) \<Rightarrow>
               (case markAsRead d message userId now of
                  (Inl e, d') \<Rightarrow> (Inl Ignored, d')
                | (Inr doc, d') \<Rightarrow> (Inr doc, d'))))"

subsection \<open>Example data\<close>

text \<open>
  Two users, both members of one group; the empty collection of messages; and the
  collection after Alice has sent \<open>hi\<close> at time 1000, to Bob (\<open>ex_db1\<close>) or to the
  group (\<open>ex_db1g\<close>).
\<close>

definition ex_aid :: oid where "ex_aid = ''aaaaaaaaaaaaaaaaaaaaaaaa''"
definition ex_bid :: oid where "ex_bid = ''bbbbbbbbbbbbbbbbbbbbbbbb''"
definition ex_gid :: oid where "ex_gid = ''999999999999999999999999''"
definition ex_mid :: oid where "ex_mid = ''111111111111111111111111''"

definition ex_alice :: user where
  "ex_alice = \<lparr>u_id = ex_aid, u_name = ''Alice'', u_avatar = [], joinedGroups = [ex_gid]\<rparr>"

definition ex_bob :: user where
  "ex_bob = \<lparr>u_id = ex_bid, u_name = ''Bob'', u_avatar = [], joinedGroups = [ex_gid]\<rparr>"

definition ex_group :: grp where
  "ex_group = \<lparr>g_id = ex_gid, g_name = ''team'', g_owner = ex_aid, g_admins = [],
                g_members = [ex_aid, ex_bid], g_totalMessages = 0\<rparr>"

definition ex_db0 :: db where
  "ex_db0 = \<lparr>messages = [], users = [ex_alice, ex_bob], groups = [ex_group]\<rparr>"

definition ex_hi :: message where
  "ex_hi =
     \<lparr>msg_id = ex_mid, sender = ex_aid, content = ''hi'', mtype = ''text'', attachments = [],
      msg_group = None, recipient = Some ex_bid,
      conversation = Some (ex_aid @ ''_'' @ ex_bid), replyTo = None,
      reactions = [], readBy = [],
      edited = \<lparr>isEdited = False, editedAt = None, originalContent = None\<rparr>,
      isDeleted = False, deletedAt = None, mentions = [], createdAt = 1000, updatedAt = 1000\<rparr>"

definition ex_db1 :: db where
  "ex_db1 = ex_db0\<lparr>messages := [ex_hi]\<rparr>"

definition ex_with :: "message list \<Rightarrow> db" where
  "ex_with ms = ex_db0\<lparr>messages := ms\<rparr>"

text \<open>The message \<open>hi\<close> after one more step at time 2000: read, reacted to, edited, deleted.\<close>

definition ex_hi_read :: message where
  "ex_hi_read = ex_hi\<lparr>readBy := [\<lparr>rb_user = ex_bid, readAt = 2000\<rparr>], updatedAt := 2000\<rparr>"

definition ex_hi_liked :: message where
  "ex_hi_liked =
     ex_hi\<lparr>reactions := [\<lparr>r_user = ex_bid, r_emoji = ''+1'', r_createdAt = 2000\<rparr>],
            updatedAt := 2000\<rparr>"

definition ex_hi_edited :: message where
  "ex_hi_edited =
     ex_hi\<lparr>content := ''hello'',
            edited := \<lparr>isEdited = True, editedAt = Some 2000, originalContent = Some ''hi''\<rparr>,
            updatedAt := 2000\<rparr>"

definition ex_hi_deleted :: message where
  "ex_hi_deleted = ex_hi\<lparr>isDeleted := True, deletedAt := Some 2000, updatedAt := 2000\<rparr>"

text \<open>
  Two later messages of the same conversation, at times 1500 and 1800, and a group message
  with an identity of its own.
\<close>

definition ex_mid2 :: oid where "ex_mid2 = ''222222222222222222222222''"
definition ex_mid3 :: oid where "ex_mid3 = ''333333333333333333333333''"
definition ex_mid4 :: oid where "ex_mid4 = ''444444444444444444444444''"

definition ex_hi2 :: message where
  "ex_hi2 = ex_hi\<lparr>msg_id := ex_mid2, content := ''again'', createdAt := 1500, updatedAt := 1500\<rparr>"

definition ex_hi3 :: message where
  "ex_hi3 = ex_hi\<lparr>msg_id := ex_mid3, content := ''hi there'', createdAt := 1800,
                  updatedAt := 1800\<rparr>"

definition ex_ghi4 :: message where
  "ex_ghi4 = ex_hi\<lparr>msg_id := ex_mid4, msg_group := Some ex_gid, recipient := None,
                   conversation := None\<rparr>"

text \<open>
  Bob's reply to the group message, at time 1500; the group message after Alice has deleted
  it at time 2000; and the collections with the group's message counter at 1, as the reply
  leaves it.
\<close>

definition ex_reply :: message where
  "ex_reply = ex_ghi4\<lparr>msg_id := ex_mid2, sender := ex_bid, content := ''re'',
                      replyTo := Some ex_mid4, createdAt := 1500, updatedAt := 1500\<rparr>"

definition ex_ghi4_deleted :: message where
  "ex_ghi4_deleted = ex_ghi4\<lparr>isDeleted := True, deletedAt := Some 2000, updatedAt := 2000\<rparr>"






text \<open>A note that Alice sends to herself.\<close>

definition ex_note :: message where
  "ex_note = ex_hi\<lparr>content := ''note'', recipient := Some ex_aid,
                   conversation := Some (ex_aid @ ''_'' @ ex_aid)\<rparr>"

definition ex_ghi :: message where
  "ex_ghi = ex_hi\<lparr>msg_group := Some ex_gid, recipient := None, conversation := None\<rparr>"

definition ex_db1g :: db where
  "ex_db1g = ex_db0\<lparr>messages := [ex_ghi]\<rparr>"

section \<open>Properties\<close>

subsection \<open>Conversation identity\<close>

lemma conversationId_unfold:
  "conversationId a b = (if a \<le> b then a @ ''_'' @ b else b @ ''_'' @ a)"
  by (simp add: conversationId_def)

text \<open>
  C1. For every pair of identities, also equal ones, the conversation key does not depend on
  the order of the pair, and it is the lexicographically smaller canonical string, the
  separator \<open>_\<close>, and the larger one.
\<close>

theorem conversationId_symmetric_sorted:
  "conversationId a b = conversationId b a \<and>
   conversationId a b = min a b @ ''_'' @ max a b"
proof -
  have "conversationId a b = min a b @ ''_'' @ max a b" for a b :: oid
    by (simp add: conversationId_unfold min_def max_def)
  moreover have "min a b = min b a" "max a b = max b a"
    by (simp_all add: min.commute max.commute)
  ultimately show ?thesis by metis
qed

theorem conversationId_symmetric_sorted_witness:
  "conversationId ''b1'' ''a1'' = ''a1_b1'' \<and> conversationId ''a1'' ''b1'' = ''a1_b1'' \<and>
   conversationId ''a1'' ''a1'' = ''a1_a1''"
proof -
  have m: "min ''b1'' ''a1'' = ''a1''" "max ''b1'' ''a1'' = ''b1''"
    "min ''a1'' ''a1'' = ''a1''" "max ''a1'' ''a1'' = ''a1''"
    by (simp_all add: min_def max_def)
  note ba_both = conversationId_symmetric_sorted [of "''b1''" "''a1''", unfolded m]
  have ba: "conversationId ''b1'' ''a1'' = conversationId ''a1'' ''b1''"
    by (rule conjunct1 [OF ba_both])
  have ba': "conversationId ''b1'' ''a1'' = ''a1_b1''"
    using conjunct2 [OF ba_both] by simp
  have aa: "conversationId ''a1'' ''a1'' = ''a1_a1''"
    using conversationId_symmetric_sorted [of "''a1''" "''a1''"] unfolding m by simp
  have ab: "conversationId ''a1'' ''b1'' = ''a1_b1''"
    unfolding ba [symmetric] by (rule ba')
  from ba' ab aa show ?thesis by (intro conjI)
qed

subsection \<open>Looking up and saving stored documents\<close>

lemma find_replace_same:
  "msg_id doc = k \<Longrightarrow>
   find (\<lambda>m. msg_id m = k) (map (\<lambda>m. if msg_id m = k then doc else m) xs) =
     (case find (\<lambda>m. msg_id m = k) xs of None \<Rightarrow> None | Some _ \<Rightarrow> Some doc)"
  by (induction xs) auto

lemma find_msg_id: "find (\<lambda>m. msg_id m = k) xs = Some old \<Longrightarrow> msg_id old = k"
  by (auto simp: find_Some_iff)

lemma find_append_None:
  "find P xs = None \<Longrightarrow> find P (xs @ ys) = find P ys"
  by (induction xs) (auto split: if_splits)

lemma find_None_filter: "find P xs = None \<Longrightarrow> filter (\<lambda>x. \<not> P x) xs = xs"
  by (induction xs) (auto split: if_splits)

lemma list_ex_filter_count:
  "list_ex P xs \<longleftrightarrow> 0 < length (filter P xs)"
  by (induction xs) auto

lemma pre_save_msg_id: "msg_id (pre_save b m) = msg_id m"
  by (simp add: pre_save_def Let_def split: option.splits)

lemma pre_save_fields:
  "readBy (pre_save b m) = readBy m" "reactions (pre_save b m) = reactions m"
  "content (pre_save b m) = content m" "edited (pre_save b m) = edited m"
  "isDeleted (pre_save b m) = isDeleted m" "createdAt (pre_save b m) = createdAt m"
  "sender (pre_save b m) = sender m" "recipient (pre_save b m) = recipient m"
  "msg_group (pre_save b m) = msg_group m"
  by (simp_all add: pre_save_def Let_def split: option.splits)

text \<open>
  Saving a document that is in the collection succeeds when its content is unchanged or
  valid; the saved document is then the stored one, with the fields the caller set.
\<close>

lemma save_stored:
  assumes "find (\<lambda>x. msg_id x = msg_id this) (messages d) = Some old"
    and "content this = content old \<or> validate_content (content this) = None"
  shows "\<exists>doc d'. save d this now = (Inr doc, d') \<and>
           find (\<lambda>x. msg_id x = msg_id this) (messages d') = Some doc \<and>
           msg_id doc = msg_id this \<and>
           readBy doc = readBy this \<and> reactions doc = reactions this \<and>
           content doc = content this \<and> edited doc = edited this \<and>
           isDeleted doc = isDeleted this \<and> createdAt doc = createdAt this \<and>
           users d' = users d \<and> groups d' = groups d"
proof (cases "this = old")
  case True
  with assms show ?thesis by (simp add: save_def)
next
  case False
  let ?doc = "(pre_save (content this \<noteq> content old) this)\<lparr>updatedAt := now\<rparr>"
  have id: "msg_id ?doc = msg_id this" by (simp add: pre_save_msg_id)
  have "save d this now =
      (Inr ?doc, d\<lparr>messages := map (\<lambda>m. if msg_id m = msg_id this then ?doc else m)
                                  (messages d)\<rparr>)"
    using assms False by (auto simp add: save_def Let_def)
  moreover have "find (\<lambda>x. msg_id x = msg_id this)
      (map (\<lambda>m. if msg_id m = msg_id this then ?doc else m) (messages d)) = Some ?doc"
    using find_replace_same [OF id, of "messages d"] assms(1) by simp
  ultimately show ?thesis by (simp add: pre_save_fields pre_save_msg_id)
qed

lemma save_new_Inr:
  assumes "save_new d this now = (Inr doc, d')"
  shows "doc = (pre_save True this)\<lparr>createdAt := now, updatedAt := now\<rparr>"
    and "d' = d\<lparr>messages := messages d @ [doc]\<rparr>"
    and "validate this = None"
  using assms by (auto simp: save_new_def Let_def split: option.splits)

lemma findUserById_Some_cast:
  "findUserById d i = Inr r \<Longrightarrow> \<exists>k. castObjectId i = Some k"
  by (auto simp: findUserById_def split: option.splits)

lemma findGroupById_Some_cast:
  "findGroupById d i = Inr r \<Longrightarrow> \<exists>k. castObjectId i = Some k"
  by (auto simp: findGroupById_def split: option.splits)

lemma requireGroupMember_cast:
  "requireGroupMember d u i = Inr g \<Longrightarrow> \<exists>k. castObjectId i = Some k"
  by (auto simp: requireGroupMember_def split: sum.splits option.splits if_splits
      dest: findGroupById_Some_cast)

subsection \<open>The example data, evaluated\<close>

lemmas ex_defs = ex_aid_def ex_bid_def ex_gid_def ex_mid_def ex_alice_def ex_bob_def
  ex_group_def ex_db0_def ex_hi_def ex_db1_def ex_ghi_def ex_db1g_def

lemma ex_cast:
  "castObjectId ex_aid = Some ex_aid" "castObjectId ex_bid = Some ex_bid"
  "castObjectId ex_gid = Some ex_gid" "castObjectId ex_mid = Some ex_mid"
  by (simp_all add: castObjectId_def isMongoId_def isHexDigit_def hexLower_def ex_defs)

lemma ex_ids: "ex_aid \<noteq> ex_bid" "ex_bid \<noteq> ex_aid" "ex_aid \<le> ex_bid"
  by (simp_all add: ex_defs)

lemma ex_u_id: "u_id ex_alice = ex_aid" "u_id ex_bob = ex_bid"
  by (simp_all add: ex_alice_def ex_bob_def)

lemma ex_find_users:
  "findUserById ex_db0 ex_bid = Inr (Some ex_bob)"
  "findUserById ex_db0 ex_aid = Inr (Some ex_alice)"
  by (simp_all add: findUserById_def ex_cast)
     (simp_all add: ex_db0_def ex_alice_def ex_bob_def ex_ids)

lemma ex_conv: "conversationId ex_aid ex_bid = ex_aid @ ''_'' @ ex_bid"
  by (simp add: conversationId_def ex_ids)

lemma ex_save_hi:
  "save_new ex_db0 (newMessage ex_mid ex_aid ''hi'' ''text'' None (Some ex_bid) None) 1000 =
     (Inr ex_hi, ex_db1)"
  by (simp add: save_new_def validate_def validate_content_def
      validate_type_def newMessage_def pre_save_def ex_conv ex_hi_def ex_db1_def
      ex_db0_def Let_def)

lemma ex_save_ghi:
  "save_new ex_db0 (newMessage ex_mid ex_aid ''hi'' ''text'' (Some ex_gid) None None) 1000 =
     (Inr ex_ghi, ex_db1g)"
  by (simp add: save_new_def validate_def validate_content_def
      validate_type_def newMessage_def pre_save_def ex_ghi_def ex_hi_def ex_db1g_def
      ex_db0_def Let_def)

lemma ex_trim: "js_trim '' hi '' = ''hi''" "js_trim ''hi'' = ''hi''"
  by (simp_all add: js_trim_def isSpace_def)

lemma ex_find_group: "findGroupById ex_db0 ex_gid = Inr (Some ex_group)"
  by (simp add: findGroupById_def ex_cast) (simp add: ex_db0_def ex_group_def)

lemma ex_member: "isMember ex_group ex_aid" "isMember ex_group ex_bid"
  by (simp_all add: isMember_def ex_group_def)

lemma ex_gate: "requireGroupMember ex_db0 ex_alice ex_gid = Inr ex_group"
  by (simp add: requireGroupMember_def ex_find_group) (simp add: ex_alice_def ex_member)

lemma ex_send:
  "send_message ex_db0 (Some ex_aid) ex_bid ''hi'' None ex_mid 1000 = (Inr ex_hi, ex_db1)"
  by (simp add: send_message_def ex_find_users ex_cast type_or_text_def ex_save_hi)

lemma ex_post:
  "post_direct ex_db0 ex_alice ex_bid '' hi '' None ex_mid 1000 = (Inr ex_hi, ex_db1)"
proof -
  have "isMongoId ex_bid" by (simp add: isMongoId_def isHexDigit_def ex_bid_def)
  then show ?thesis
    by (simp add: post_direct_def ex_trim valid_content_def valid_type_def ex_find_users
        ex_cast ex_u_id type_or_text_def ex_save_hi)
qed

lemma ex_send_group:
  "send_group_message ex_db0 (Some ex_aid) ex_gid ''hi'' None None ex_mid 1000 =
     (Inr ex_ghi, ex_db1g)"
  by (simp add: send_group_message_def ex_find_group ex_member ex_cast type_or_text_def
      replyTo_of_def ex_save_ghi)

lemma ex_post_group:
  "post_group ex_db0 ex_alice ex_gid '' hi '' None None ex_mid 1000 =
     (Inr ex_ghi, ex_db1g\<lparr>groups := [ex_group\<lparr>g_totalMessages := 1\<rparr>]\<rparr>)"
proof -
  have "incTotalMessages ex_db1g (g_id ex_group) =
      ex_db1g\<lparr>groups := [ex_group\<lparr>g_totalMessages := 1\<rparr>]\<rparr>"
    by (simp add: incTotalMessages_def ex_db1g_def ex_db0_def ex_group_def)
  then show ?thesis
    by (simp add: post_group_def ex_gate ex_trim valid_content_def valid_type_def ex_cast
        ex_u_id type_or_text_def replyTo_of_def ex_save_ghi)
qed

lemma ex_stored_hi: "find (\<lambda>x. msg_id x = msg_id ex_hi) (messages ex_db1) = Some ex_hi"
  by (simp add: ex_db1_def)

lemma ex_db1_with: "ex_db1 = ex_with [ex_hi]"
  by (simp add: ex_db1_def ex_with_def)

lemma ex_stored_with: "find (\<lambda>x. msg_id x = msg_id m) (messages (ex_with [m])) = Some m"
  by (simp add: ex_with_def)

subsection \<open>Addressing of created messages\<close>

lemma direct_saved:
  assumes "save_new d (newMessage i s c t None (Some r) rep) now = (Inr m, d')"
  shows "recipient m = Some r \<and> msg_group m = None \<and> sender m = s \<and>
         conversation m = Some (conversationId s r) \<and> messages d' = messages d @ [m]"
  using save_new_Inr(1,2) [OF assms] by (simp add: newMessage_def pre_save_def)

lemma group_saved:
  assumes "save_new d (newMessage i s c t (Some g) None rep) now = (Inr m, d')"
  shows "msg_group m = Some g \<and> recipient m = None \<and> sender m = s \<and>
         conversation m = None \<and> messages d' = messages d @ [m]"
  using save_new_Inr(1,2) [OF assms] by (simp add: newMessage_def pre_save_def)

lemma send_message_created:
  assumes "send_message d su rid c ty i now = (Inr m, d')"
  shows "\<exists>r. recipient m = Some r \<and> castObjectId rid = Some r \<and> msg_group m = None \<and>
           conversation m = Some (conversationId (sender m) r) \<and>
           messages d' = messages d @ [m]"
proof -
  from assms obtain s where su: "su = Some s"
    by (cases su) (simp_all add: send_message_def)
  from assms su obtain ru where fu: "findUserById d rid = Inr (Some ru)"
    by (auto simp: send_message_def split: sum.splits option.splits)
  then obtain r where c: "castObjectId rid = Some r" by (blast dest: findUserById_Some_cast)
  from assms su fu c
  have "save_new d (newMessage i s c (type_or_text ty) None (Some r) None) now = (Inr m, d')"
    by (auto simp: send_message_def split: prod.splits sum.splits)
  from direct_saved [OF this] c show ?thesis by simp
qed

lemma post_direct_created:
  assumes "post_direct d u rid c ty i now = (Inr m, d')"
  shows "\<exists>r. recipient m = Some r \<and> castObjectId rid = Some r \<and> msg_group m = None \<and>
           conversation m = Some (conversationId (sender m) r) \<and>
           messages d' = messages d @ [m]"
proof -
  from assms obtain ru where fu: "findUserById d rid = Inr (Some ru)"
    by (auto simp: post_direct_def Let_def split: if_splits sum.splits option.splits)
  then obtain r where c: "castObjectId rid = Some r" by (blast dest: findUserById_Some_cast)
  from assms fu c
  have "save_new d (newMessage i (u_id u) (js_trim c) (type_or_text ty) None (Some r) None) now
          = (Inr m, d')"
    by (auto simp: post_direct_def Let_def split: if_splits prod.splits sum.splits)
  from direct_saved [OF this] c show ?thesis by simp
qed

lemma send_group_message_created:
  assumes "send_group_message d su gid c ty rp i now = (Inr m, d')"
  shows "\<exists>g. msg_group m = Some g \<and> castObjectId gid = Some g \<and> recipient m = None \<and>
           conversation m = None \<and> messages d' = messages d @ [m]"
proof -
  from assms obtain s where su: "su = Some s"
    by (cases su) (simp_all add: send_group_message_def)
  from assms su obtain gr where fg: "findGroupById d gid = Inr (Some gr)"
    by (auto simp: send_group_message_def split: sum.splits option.splits)
  then obtain g where c: "castObjectId gid = Some g" by (blast dest: findGroupById_Some_cast)
  from assms su fg c
  have "save_new d (newMessage i s c (type_or_text ty) (Some g) None (replyTo_of rp)) now
          = (Inr m, d')"
    by (auto simp: send_group_message_def split: if_splits prod.splits sum.splits)
  from group_saved [OF this] c show ?thesis by simp
qed

lemma incTotalMessages_messages: "messages (incTotalMessages d g) = messages d"
  by (simp add: incTotalMessages_def)

lemma post_group_created:
  assumes "post_group d u gid c ty rp i now = (Inr m, d')"
  shows "\<exists>g. msg_group m = Some g \<and> castObjectId gid = Some g \<and> recipient m = None \<and>
           conversation m = None \<and> messages d' = messages d @ [m]"
proof -
  from assms obtain gr where fg: "requireGroupMember d u gid = Inr gr"
    by (auto simp: post_group_def split: sum.splits)
  then obtain g where c: "castObjectId gid = Some g" by (blast dest: requireGroupMember_cast)
  from assms fg c obtain d1 where
    sv: "save_new d (newMessage i (u_id u) (js_trim c) (type_or_text ty) (Some g) None
           (replyTo_of rp)) now = (Inr m, d1)"
    and d': "d' = incTotalMessages d1 (g_id gr)"
    by (auto simp: post_group_def Let_def split: if_splits prod.splits sum.splits)
  from group_saved [OF sv] c d' show ?thesis by (simp add: incTotalMessages_messages)
qed

text \<open>
  C2. A message created by a direct send (the socket's \<open>send_message\<close> or the route
  \<open>POST /direct\<close>) is stored with its recipient set, its group unset and its conversation
  key present (the key of sender and recipient); a message created by a group send (the
  socket's \<open>send_group_message\<close> or the route \<open>POST /groups/:groupId\<close>) is stored with its
  group set and its recipient unset.
\<close>

theorem created_message_addressing:
  "(send_message d su rid c1 ty i now = (Inr m1, d1) \<longrightarrow>
      recipient m1 \<noteq> None \<and> msg_group m1 = None \<and> conversation m1 \<noteq> None \<and>
      recipient m1 = castObjectId rid \<and>
      conversation m1 = map_option (conversationId (sender m1)) (recipient m1) \<and>
      messages d1 = messages d @ [m1]) \<and>
   (post_direct d u rid c2 ty i now = (Inr m2, d2) \<longrightarrow>
      recipient m2 \<noteq> None \<and> msg_group m2 = None \<and> conversation m2 \<noteq> None \<and>
      recipient m2 = castObjectId rid \<and>
      conversation m2 = map_option (conversationId (sender m2)) (recipient m2) \<and>
      messages d2 = messages d @ [m2]) \<and>
   (send_group_message d su gid c3 ty rp i now = (Inr m3, d3) \<longrightarrow>
      msg_group m3 \<noteq> None \<and> recipient m3 = None \<and> msg_group m3 = castObjectId gid \<and>
      messages d3 = messages d @ [m3]) \<and>
   (post_group d u gid c4 ty rp i now = (Inr m4, d4) \<longrightarrow>
      msg_group m4 \<noteq> None \<and> recipient m4 = None \<and> msg_group m4 = castObjectId gid \<and>
      messages d4 = messages d @ [m4])"
proof (intro conjI impI)
  assume "send_message d su rid c1 ty i now = (Inr m1, d1)"
  from send_message_created [OF this] obtain r where
    "recipient m1 = Some r" "castObjectId rid = Some r" "msg_group m1 = None"
    "conversation m1 = Some (conversationId (sender m1) r)" "messages d1 = messages d @ [m1]"
    by blast
  then show "recipient m1 \<noteq> None" "msg_group m1 = None" "conversation m1 \<noteq> None"
    "recipient m1 = castObjectId rid"
    "conversation m1 = map_option (conversationId (sender m1)) (recipient m1)"
    "messages d1 = messages d @ [m1]"
    by simp_all
next
  assume "post_direct d u rid c2 ty i now = (Inr m2, d2)"
  from post_direct_created [OF this] obtain r where
    "recipient m2 = Some r" "castObjectId rid = Some r" "msg_group m2 = None"
    "conversation m2 = Some (conversationId (sender m2) r)" "messages d2 = messages d @ [m2]"
    by blast
  then show "recipient m2 \<noteq> None" "msg_group m2 = None" "conversation m2 \<noteq> None"
    "recipient m2 = castObjectId rid"
    "conversation m2 = map_option (conversationId (sender m2)) (recipient m2)"
    "messages d2 = messages d @ [m2]"
    by simp_all
next
  assume "send_group_message d su gid c3 ty rp i now = (Inr m3, d3)"
  from send_group_message_created [OF this] obtain g where
    "msg_group m3 = Some g" "castObjectId gid = Some g" "recipient m3 = None"
    "messages d3 = messages d @ [m3]"
    by blast
  then show "msg_group m3 \<noteq> None" "recipient m3 = None" "msg_group m3 = castObjectId gid"
    "messages d3 = messages d @ [m3]"
    by simp_all
next
  assume "post_group d u gid c4 ty rp i now = (Inr m4, d4)"
  from post_group_created [OF this] obtain g where
    "msg_group m4 = Some g" "castObjectId gid = Some g" "recipient m4 = None"
    "messages d4 = messages d @ [m4]"
    by blast
  then show "msg_group m4 \<noteq> None" "recipient m4 = None" "msg_group m4 = castObjectId gid"
    "messages d4 = messages d @ [m4]"
    by simp_all
qed

theorem created_message_addressing_witness:
  "send_message ex_db0 (Some ex_aid) ex_bid ''hi'' None ex_mid 1000 = (Inr ex_hi, ex_db1) \<and>
   post_direct ex_db0 ex_alice ex_bid '' hi '' None ex_mid 1000 = (Inr ex_hi, ex_db1) \<and>
   recipient ex_hi \<noteq> None \<and> msg_group ex_hi = None \<and> conversation ex_hi \<noteq> None \<and>
   send_group_message ex_db0 (Some ex_aid) ex_gid ''hi'' None None ex_mid 1000 =
     (Inr ex_ghi, ex_db1g) \<and>
   post_group ex_db0 ex_alice ex_gid '' hi '' None None ex_mid 1000 =
     (Inr ex_ghi, ex_db1g\<lparr>groups := [ex_group\<lparr>g_totalMessages := 1\<rparr>]\<rparr>) \<and>
   msg_group ex_ghi \<noteq> None \<and> recipient ex_ghi = None"
  using created_message_addressing [where d = ex_db0 and su = "Some ex_aid" and u = ex_alice
      and rid = ex_bid and gid = ex_gid and ?c1.0 = "''hi''" and ?c2.0 = "'' hi ''"
      and ?c3.0 = "''hi''" and ?c4.0 = "'' hi ''" and ty = None and rp = None and i = ex_mid
      and now = 1000 and ?m1.0 = ex_hi and ?m2.0 = ex_hi and ?m3.0 = ex_ghi and ?m4.0 = ex_ghi
      and ?d1.0 = ex_db1 and ?d2.0 = ex_db1 and ?d3.0 = ex_db1g
      and ?d4.0 = "ex_db1g\<lparr>groups := [ex_group\<lparr>g_totalMessages := 1\<rparr>]\<rparr>"]
  by (simp add: ex_send ex_post ex_send_group ex_post_group ex_cast)

subsection \<open>Read receipts\<close>

lemma ex_markAsRead:
  "markAsRead ex_db1 ex_hi ex_bid 2000 = (Inr ex_hi_read, ex_with [ex_hi_read])"
  by (simp add: markAsRead_def save_def pre_save_def ex_db1_def ex_hi_def ex_conv Let_def
      ex_hi_read_def ex_with_def)

text \<open>
  The method on a stored message: it succeeds, appends an entry only if the user has none,
  and a second call changes nothing.
\<close>

lemma markAsRead_stored:
  assumes stored: "find (\<lambda>x. msg_id x = msg_id m) (messages d) = Some m"
    and once: "markAsRead d m u t1 = (r1, d1)"
  shows "\<exists>m1. r1 = Inr m1 \<and>
           find (\<lambda>x. msg_id x = msg_id m) (messages d1) = Some m1 \<and>
           readBy m1 = (if list_ex (\<lambda>r. rb_user r = u) (readBy m) then readBy m
                        else readBy m @ [\<lparr>rb_user = u, readAt = t1\<rparr>]) \<and>
           markAsRead d1 m1 u t2 = (Inr m1, d1) \<and>
           (length (filter (\<lambda>r. rb_user r = u) (readBy m)) \<le> 1 \<longrightarrow>
              length (filter (\<lambda>r. rb_user r = u) (readBy m1)) = 1)"
proof (cases "list_ex (\<lambda>r. rb_user r = u) (readBy m)")
  case True
  then have "markAsRead d m u t1 = (Inr m, d)" by (simp add: markAsRead_def)
  with once have r: "r1 = Inr m" "d1 = d" by simp_all
  have "markAsRead d m u t2 = (Inr m, d)" using True by (simp add: markAsRead_def)
  moreover have "0 < length (filter (\<lambda>r. rb_user r = u) (readBy m))"
    using True by (simp add: list_ex_filter_count)
  then have "length (filter (\<lambda>r. rb_user r = u) (readBy m)) \<le> 1 \<longrightarrow>
      length (filter (\<lambda>r. rb_user r = u) (readBy m)) = 1" by arith
  ultimately show ?thesis using r stored True by simp
next
  case False
  let ?upd = "m\<lparr>readBy := readBy m @ [\<lparr>rb_user = u, readAt = t1\<rparr>]\<rparr>"
  have st: "find (\<lambda>x. msg_id x = msg_id ?upd) (messages d) = Some m" using stored by simp
  from save_stored [OF st, of t1] obtain doc d' where
    sv: "save d ?upd t1 = (Inr doc, d')"
    and fd: "find (\<lambda>x. msg_id x = msg_id ?upd) (messages d') = Some doc"
    and rb: "readBy doc = readBy ?upd" and idd: "msg_id doc = msg_id ?upd"
    by auto
  have "markAsRead d m u t1 = save d ?upd t1" using False by (simp add: markAsRead_def)
  with once sv have r: "r1 = Inr doc" "d1 = d'" by simp_all
  have rd: "list_ex (\<lambda>r. rb_user r = u) (readBy doc)" using rb by simp
  then have again: "markAsRead d' doc u t2 = (Inr doc, d')" by (simp add: markAsRead_def)
  have "length (filter (\<lambda>r. rb_user r = u) (readBy m)) = 0"
    using False by (simp add: list_ex_filter_count)
  then have cnt: "length (filter (\<lambda>r. rb_user r = u) (readBy doc)) = 1" using rb by simp
  show ?thesis using r fd rb again cnt False by simp
qed

text \<open>
  The data model's invariant, at most one entry per user, holds of a new message and is kept
  by the method and by the guarded push of the two fetch routes; it bounds the number of a
  user's entries by one.
\<close>

lemma newMessage_readBy: "readBy (newMessage i s c t g r rep) = []"
  by (simp add: newMessage_def)

lemma markAsRead_keeps_distinct:
  assumes "find (\<lambda>x. msg_id x = msg_id m) (messages d) = Some m"
    and "distinct (map rb_user (readBy m))"
    and "markAsRead d m u t1 = (Inr m1, d1)"
  shows "distinct (map rb_user (readBy m1))"
proof -
  from markAsRead_stored [OF assms(1,3), of t1]
  have "readBy m1 = (if list_ex (\<lambda>r. rb_user r = u) (readBy m) then readBy m
                     else readBy m @ [\<lparr>rb_user = u, readAt = t1\<rparr>])"
    by simp
  with assms(2) show ?thesis by (auto simp: list_ex_iff)
qed

lemma pushReadBy_keeps_distinct:
  "distinct (map rb_user (readBy m)) \<Longrightarrow> notReadBy u m \<Longrightarrow>
   distinct (map rb_user (readBy (pushReadBy u now m)))"
  by (auto simp: notReadBy_def pushReadBy_def list_ex_iff)

lemma distinct_users_at_most_one:
  "distinct (map rb_user xs) \<Longrightarrow> length (filter (\<lambda>r. rb_user r = u) xs) \<le> 1"
proof (induction xs)
  case Nil
  then show ?case by simp
next
  case (Cons x xs)
  show ?case
  proof (cases "rb_user x = u")
    case True
    with Cons.prems have "u \<notin> rb_user ` set xs" by simp
    then have "filter (\<lambda>r. rb_user r = u) xs = []"
      by (auto simp: filter_empty_conv)
    with True show ?thesis by simp
  next
    case False
    with Cons show ?thesis by simp
  qed
qed

lemma findMessageById_stored:
  assumes "findMessageById d mid = Inr (Some m)"
  shows "find (\<lambda>x. msg_id x = msg_id m) (messages d) = Some m"
    and "castObjectId mid = Some (msg_id m)"
proof -
  from assms obtain k where k: "castObjectId mid = Some k"
    and f: "find (\<lambda>x. msg_id x = k) (messages d) = Some m"
    by (auto simp: findMessageById_def split: option.splits)
  from f have "msg_id m = k" by (rule find_msg_id)
  with k f show "find (\<lambda>x. msg_id x = msg_id m) (messages d) = Some m"
    and "castObjectId mid = Some (msg_id m)" by simp_all
qed

lemma ex_find_hi: "findMessageById ex_db1 ex_mid = Inr (Some ex_hi)"
  by (simp add: findMessageById_def ex_cast) (simp add: ex_db1_def ex_hi_def)

lemma ex_mark_as_read:
  "mark_as_read ex_db1 (Some ex_bid) ex_mid 2000 = (Inr ex_hi_read, ex_with [ex_hi_read])"
  by (simp add: mark_as_read_def ex_find_hi ex_markAsRead)

text \<open>
  C6. Marking a stored message as read (the socket's \<open>mark_as_read\<close>, which calls the
  method \<open>markAsRead\<close>) succeeds and appends a \<open>readBy\<close> entry for the user only if the
  user has none yet; a second call with the same message identity and user changes neither
  the message nor the collections; and a message that held at most one entry for the user
  (as every message of the data model does) holds exactly one afterwards.
\<close>

theorem mark_as_read_idempotent:
  assumes found: "findMessageById d mid = Inr (Some m)"
    and once: "mark_as_read d (Some u) mid t1 = (r1, d1)"
  shows "\<exists>m1. r1 = Inr m1 \<and> markAsRead d m u t1 = (Inr m1, d1) \<and>
           findMessageById d1 mid = Inr (Some m1) \<and>
           readBy m1 = (if list_ex (\<lambda>r. rb_user r = u) (readBy m) then readBy m
                        else readBy m @ [\<lparr>rb_user = u, readAt = t1\<rparr>]) \<and>
           mark_as_read d1 (Some u) mid t2 = (Inr m1, d1) \<and>
           markAsRead d1 m1 u t2 = (Inr m1, d1) \<and>
           (length (filter (\<lambda>r. rb_user r = u) (readBy m)) \<le> 1 \<longrightarrow>
              length (filter (\<lambda>r. rb_user r = u) (readBy m1)) = 1)"
proof -
  note st = findMessageById_stored [OF found]
  obtain r d' where m: "markAsRead d m u t1 = (r, d')" by (cases "markAsRead d m u t1")
  from markAsRead_stored [OF st(1) m, of t2] obtain m1 where
    r: "r = Inr m1"
    and fd: "find (\<lambda>x. msg_id x = msg_id m) (messages d') = Some m1"
    and rb: "readBy m1 = (if list_ex (\<lambda>r. rb_user r = u) (readBy m) then readBy m
                          else readBy m @ [\<lparr>rb_user = u, readAt = t1\<rparr>])"
    and again: "markAsRead d' m1 u t2 = (Inr m1, d')"
    and cnt: "length (filter (\<lambda>r. rb_user r = u) (readBy m)) \<le> 1 \<longrightarrow>
              length (filter (\<lambda>r. rb_user r = u) (readBy m1)) = 1"
    by blast
  from found m r once have res: "r1 = Inr m1" "d1 = d'"
    by (simp_all add: mark_as_read_def)
  have f1: "findMessageById d' mid = Inr (Some m1)"
    using st(2) fd by (simp add: findMessageById_def)
  then have "mark_as_read d' (Some u) mid t2 = (Inr m1, d')"
    using again by (simp add: mark_as_read_def)
  with res m r f1 rb again cnt show ?thesis by simp
qed

theorem mark_as_read_idempotent_witness:
  "findMessageById ex_db1 ex_mid = Inr (Some ex_hi) \<and>
   length (filter (\<lambda>r. rb_user r = ex_bid) (readBy ex_hi)) \<le> 1 \<and>
   mark_as_read ex_db1 (Some ex_bid) ex_mid 2000 = (Inr ex_hi_read, ex_with [ex_hi_read]) \<and>
   mark_as_read (ex_with [ex_hi_read]) (Some ex_bid) ex_mid 3000 =
     (Inr ex_hi_read, ex_with [ex_hi_read]) \<and>
   readBy ex_hi_read = [\<lparr>rb_user = ex_bid, readAt = 2000\<rparr>] \<and>
   length (filter (\<lambda>r. rb_user r = ex_bid) (readBy ex_hi_read)) = 1"
proof -
  have cnt: "length (filter (\<lambda>r. rb_user r = ex_bid) (readBy ex_hi)) \<le> 1"
    and none: "readBy ex_hi = []"
    by (simp_all add: ex_hi_def)
  from mark_as_read_idempotent [OF ex_find_hi ex_mark_as_read, of 3000] cnt none
  show ?thesis using ex_find_hi ex_mark_as_read by auto
qed

subsection \<open>Reactions\<close>

lemma ex_addReaction:
  "addReaction ex_db1 ex_hi ex_bid ''+1'' 2000 = (Inr (True, ex_hi_liked), ex_with [ex_hi_liked])"
  by (simp add: addReaction_def save_def pre_save_def ex_db1_def ex_hi_def ex_conv Let_def
      ex_hi_liked_def ex_with_def)

lemma ex_removeReaction:
  "removeReaction (ex_with [ex_hi_liked]) ex_hi_liked ex_bid ''+1'' 3000 =
     (Inr (ex_hi\<lparr>updatedAt := 3000\<rparr>), ex_with [ex_hi\<lparr>updatedAt := 3000\<rparr>])"
  by (simp add: removeReaction_def save_def pre_save_def ex_hi_def ex_conv Let_def
      ex_hi_liked_def ex_with_def)

text \<open>
  C7, as amended. \<open>addReaction\<close> on a stored message reports whether the pair (user,
  emoji) was absent; a second \<open>addReaction\<close> with the same pair reports \<open>False\<close> and
  changes neither the message nor the collection, so no duplicate is inserted. When the first
  call reported \<open>True\<close>, the message holds the pair once, and \<open>removeReaction\<close> afterwards
  restores the reactions, hence their number, to what they were before the add.
\<close>

theorem reaction_add_twice_remove:
  assumes stored: "find (\<lambda>x. msg_id x = msg_id m) (messages d) = Some m"
    and add1: "addReaction d m u e t1 = (r1, d1)"
  shows "\<exists>m1. r1 = Inr (find (\<lambda>r. r_user r = u \<and> r_emoji r = e) (reactions m) = None, m1) \<and>
           find (\<lambda>x. msg_id x = msg_id m) (messages d1) = Some m1 \<and>
           addReaction d1 m1 u e t2 = (Inr (False, m1), d1) \<and>
           (find (\<lambda>r. r_user r = u \<and> r_emoji r = e) (reactions m) = None \<longrightarrow>
              length (filter (\<lambda>r. r_user r = u \<and> r_emoji r = e) (reactions m1)) = 1 \<and>
              (\<exists>m2 d2. removeReaction d1 m1 u e t3 = (Inr m2, d2) \<and>
                 find (\<lambda>x. msg_id x = msg_id m) (messages d2) = Some m2 \<and>
                 reactions m2 = reactions m \<and>
                 length (reactions m2) = length (reactions m)))"
proof (cases "find (\<lambda>r. r_user r = u \<and> r_emoji r = e) (reactions m)")
  case (Some r)
  then have "addReaction d m u e t1 = (Inr (False, m), d)" by (simp add: addReaction_def)
  with add1 have r: "r1 = Inr (False, m)" "d1 = d" by simp_all
  have "addReaction d m u e t2 = (Inr (False, m), d)" using Some by (simp add: addReaction_def)
  with r stored Some show ?thesis by simp
next
  case None
  let ?new = "\<lparr>r_user = u, r_emoji = e, r_createdAt = t1\<rparr>"
  let ?upd = "m\<lparr>reactions := reactions m @ [?new]\<rparr>"
  have st: "find (\<lambda>x. msg_id x = msg_id ?upd) (messages d) = Some m" using stored by simp
  from save_stored [OF st, of t1] obtain doc d' where
    sv: "save d ?upd t1 = (Inr doc, d')"
    and fd: "find (\<lambda>x. msg_id x = msg_id ?upd) (messages d') = Some doc"
    and rs: "reactions doc = reactions ?upd" and idd: "msg_id doc = msg_id ?upd"
    by auto
  have "addReaction d m u e t1 = (Inr (True, doc), d')"
    using None sv by (simp add: addReaction_def)
  with add1 have r: "r1 = Inr (True, doc)" "d1 = d'" by simp_all
  have present: "find (\<lambda>r. r_user r = u \<and> r_emoji r = e) (reactions doc) = Some ?new"
    using None rs by (simp add: find_append_None)
  have again: "addReaction d' doc u e t2 = (Inr (False, doc), d')"
    using present by (simp add: addReaction_def)
  have keep: "filter (\<lambda>r. \<not> (r_user r = u \<and> r_emoji r = e)) (reactions m) = reactions m"
    using None by (rule find_None_filter)
  have none: "filter (\<lambda>r. r_user r = u \<and> r_emoji r = e) (reactions m) = []"
    using None by (simp add: find_None_iff filter_empty_conv)
  have one: "length (filter (\<lambda>r. r_user r = u \<and> r_emoji r = e) (reactions doc)) = 1"
    using rs none by simp
  let ?rem = "doc\<lparr>reactions := filter (\<lambda>r. \<not> (r_user r = u \<and> r_emoji r = e)) (reactions doc)\<rparr>"
  have fd': "find (\<lambda>x. msg_id x = msg_id ?rem) (messages d') = Some doc" using fd idd by simp
  from save_stored [OF fd', of t3] obtain m2 d2 where
    sv2: "save d' ?rem t3 = (Inr m2, d2)"
    and fd2: "find (\<lambda>x. msg_id x = msg_id ?rem) (messages d2) = Some m2"
    and rs2: "reactions m2 = reactions ?rem"
    by auto
  have rm: "removeReaction d' doc u e t3 = (Inr m2, d2)"
    using sv2 by (simp add: removeReaction_def)
  have restored: "reactions m2 = reactions m" using rs2 rs keep by simp
  show ?thesis using r None fd idd again one rm fd2 restored by simp
qed

theorem reaction_add_twice_remove_witness:
  "find (\<lambda>r. r_user r = ex_bid \<and> r_emoji r = ''+1'') (reactions ex_hi) = None \<and>
   addReaction ex_db1 ex_hi ex_bid ''+1'' 2000 = (Inr (True, ex_hi_liked), ex_with [ex_hi_liked]) \<and>
   addReaction (ex_with [ex_hi_liked]) ex_hi_liked ex_bid ''+1'' 2500 =
     (Inr (False, ex_hi_liked), ex_with [ex_hi_liked]) \<and>
   removeReaction (ex_with [ex_hi_liked]) ex_hi_liked ex_bid ''+1'' 3000 =
     (Inr (ex_hi\<lparr>updatedAt := 3000\<rparr>), ex_with [ex_hi\<lparr>updatedAt := 3000\<rparr>]) \<and>
   reactions (ex_hi\<lparr>updatedAt := 3000\<rparr>) = reactions ex_hi"
proof -
  have none: "find (\<lambda>r. r_user r = ex_bid \<and> r_emoji r = ''+1'') (reactions ex_hi) = None"
    by (simp add: ex_hi_def)
  from reaction_add_twice_remove [OF ex_stored_hi ex_addReaction, of 2500 3000] none
  show ?thesis using ex_addReaction ex_removeReaction by auto
qed

text \<open>
  C7 as stated, for every message, fails where the pair is already on the message: the add
  is refused, and the remove then takes the earlier reaction away, so the number of reactions
  is one less than before the add.
\<close>

theorem reaction_remove_after_noop_add_counterexample:
  "addReaction (ex_with [ex_hi_liked]) ex_hi_liked ex_bid ''+1'' 2500 =
     (Inr (False, ex_hi_liked), ex_with [ex_hi_liked]) \<and>
   removeReaction (ex_with [ex_hi_liked]) ex_hi_liked ex_bid ''+1'' 3000 =
     (Inr (ex_hi\<lparr>updatedAt := 3000\<rparr>), ex_with [ex_hi\<lparr>updatedAt := 3000\<rparr>]) \<and>
   length (reactions ex_hi_liked) = 1 \<and>
   length (reactions (ex_hi\<lparr>updatedAt := 3000\<rparr>)) = 0 \<and>
   length (reactions (ex_hi\<lparr>updatedAt := 3000\<rparr>)) \<noteq> length (reactions ex_hi_liked)"
proof -
  have "addReaction (ex_with [ex_hi_liked]) ex_hi_liked ex_bid ''+1'' 2500 =
     (Inr (False, ex_hi_liked), ex_with [ex_hi_liked])"
    by (simp add: addReaction_def ex_hi_liked_def)
  moreover have "length (reactions ex_hi_liked) = 1"
    "length (reactions (ex_hi\<lparr>updatedAt := 3000\<rparr>)) = 0"
    by (simp_all add: ex_hi_liked_def ex_hi_def)
  ultimately show ?thesis using ex_removeReaction by simp
qed

subsection \<open>Editing\<close>

lemma ex_valid: "validate_content ''hello'' = None" "validate_content ''hey'' = None"
  by (simp_all add: validate_content_def)

lemma ex_editContent:
  "editContent ex_db1 ex_hi ''hello'' 2000 = (Inr ex_hi_edited, ex_with [ex_hi_edited])"
  by (simp add: editContent_def save_def pre_save_def ex_db1_def ex_hi_def ex_conv Let_def
      ex_hi_edited_def ex_with_def ex_valid)

lemma ex_editContent2:
  "editContent (ex_with [ex_hi_edited]) ex_hi_edited ''hey'' 3000 =
     (Inr (ex_hi_edited\<lparr>content := ''hey'',
             edited := \<lparr>isEdited = True, editedAt = Some 3000, originalContent = Some ''hi''\<rparr>,
             updatedAt := 3000\<rparr>),
      ex_with [ex_hi_edited\<lparr>content := ''hey'',
             edited := \<lparr>isEdited = True, editedAt = Some 3000, originalContent = Some ''hi''\<rparr>,
             updatedAt := 3000\<rparr>])"
  by (simp add: editContent_def save_def pre_save_def ex_hi_def ex_conv Let_def
      ex_hi_edited_def ex_with_def ex_valid)

text \<open>
  C8. The first \<open>editContent\<close> of a stored message, with valid contents, stores the
  message's original content as the snapshot; a later \<open>editContent\<close> leaves the snapshot
  as it is; both calls set the new content, the edited flag and the time of the edit.
\<close>

theorem editContent_snapshot_once:
  assumes stored: "find (\<lambda>x. msg_id x = msg_id m) (messages d) = Some m"
    and fresh: "\<not> isEdited (edited m)"
    and ok1: "validate_content c1 = None" and ok2: "validate_content c2 = None"
    and edit1: "editContent d m c1 t1 = (r1, d1)"
  shows "\<exists>m1. r1 = Inr m1 \<and>
           find (\<lambda>x. msg_id x = msg_id m) (messages d1) = Some m1 \<and>
           content m1 = c1 \<and> isEdited (edited m1) \<and> editedAt (edited m1) = Some t1 \<and>
           originalContent (edited m1) = Some (content m) \<and>
           (\<exists>m2 d2. editContent d1 m1 c2 t2 = (Inr m2, d2) \<and>
              find (\<lambda>x. msg_id x = msg_id m) (messages d2) = Some m2 \<and>
              content m2 = c2 \<and> isEdited (edited m2) \<and> editedAt (edited m2) = Some t2 \<and>
              originalContent (edited m2) = Some (content m))"
proof -
  let ?e1 = "m\<lparr>content := c1,
                edited := (edited m)\<lparr>originalContent := Some (content m), isEdited := True,
                            editedAt := Some t1\<rparr>\<rparr>"
  have e1: "editContent d m c1 t1 = save d ?e1 t1"
    using fresh by (simp add: editContent_def Let_def)
  have st: "find (\<lambda>x. msg_id x = msg_id ?e1) (messages d) = Some m" using stored by simp
  have v1: "content ?e1 = content m \<or> validate_content (content ?e1) = None" using ok1 by simp
  from save_stored [OF st v1, of t1] obtain m1 d' where
    sv: "save d ?e1 t1 = (Inr m1, d')"
    and fd: "find (\<lambda>x. msg_id x = msg_id ?e1) (messages d') = Some m1"
    and idd: "msg_id m1 = msg_id ?e1"
    and c: "content m1 = content ?e1" and ed: "edited m1 = edited ?e1"
    by auto
  from edit1 e1 sv have r: "r1 = Inr m1" "d1 = d'" by simp_all
  let ?e2 = "m1\<lparr>content := c2,
                 edited := (edited m1)\<lparr>isEdited := True, editedAt := Some t2\<rparr>\<rparr>"
  have e2: "editContent d' m1 c2 t2 = save d' ?e2 t2"
    using ed by (simp add: editContent_def Let_def)
  have st2: "find (\<lambda>x. msg_id x = msg_id ?e2) (messages d') = Some m1" using fd idd by simp
  have v2: "content ?e2 = content m1 \<or> validate_content (content ?e2) = None" using ok2 by simp
  from save_stored [OF st2 v2, of t2] obtain m2 d2 where
    sv2: "save d' ?e2 t2 = (Inr m2, d2)"
    and fd2: "find (\<lambda>x. msg_id x = msg_id ?e2) (messages d2) = Some m2"
    and c2: "content m2 = content ?e2" and ed2: "edited m2 = edited ?e2"
    by auto
  show ?thesis using r fd idd c ed e2 sv2 fd2 c2 ed2 by simp
qed

theorem editContent_snapshot_once_witness:
  "find (\<lambda>x. msg_id x = msg_id ex_hi) (messages ex_db1) = Some ex_hi \<and>
   \<not> isEdited (edited ex_hi) \<and> content ex_hi = ''hi'' \<and>
   validate_content ''hello'' = None \<and> validate_content ''hey'' = None \<and>
   editContent ex_db1 ex_hi ''hello'' 2000 = (Inr ex_hi_edited, ex_with [ex_hi_edited]) \<and>
   originalContent (edited ex_hi_edited) = Some ''hi'' \<and>
   (\<exists>m2 d2. editContent (ex_with [ex_hi_edited]) ex_hi_edited ''hey'' 3000 = (Inr m2, d2) \<and>
      content m2 = ''hey'' \<and> editedAt (edited m2) = Some 3000 \<and>
      originalContent (edited m2) = Some ''hi'')"
proof -
  have fresh: "\<not> isEdited (edited ex_hi)" and c: "content ex_hi = ''hi''"
    by (simp_all add: ex_hi_def)
  from editContent_snapshot_once [OF ex_stored_hi fresh ex_valid ex_editContent, of 3000]
  show ?thesis using ex_stored_hi fresh c ex_valid ex_editContent by auto
qed

subsection \<open>The edit window\<close>

lemma editContent_stored:
  assumes stored: "find (\<lambda>x. msg_id x = msg_id m) (messages d) = Some m"
    and ok: "c = content m \<or> validate_content c = None"
  shows "\<exists>doc d'. editContent d m c now = (Inr doc, d') \<and>
           find (\<lambda>x. msg_id x = msg_id m) (messages d') = Some doc \<and>
           msg_id doc = msg_id m \<and> content doc = c \<and>
           isEdited (edited doc) \<and> editedAt (edited doc) = Some now \<and>
           originalContent (edited doc) =
             (if isEdited (edited m) then originalContent (edited m) else Some (content m)) \<and>
           createdAt doc = createdAt m \<and> isDeleted doc = isDeleted m \<and>
           readBy doc = readBy m \<and> reactions doc = reactions m"
proof -
  let ?e = "m\<lparr>content := c,
               edited := (edited m)\<lparr>originalContent :=
                   (if isEdited (edited m) then originalContent (edited m) else Some (content m)),
                 isEdited := True, editedAt := Some now\<rparr>\<rparr>"
  have e: "editContent d m c now = save d ?e now"
    by (simp add: editContent_def Let_def)
  have st: "find (\<lambda>x. msg_id x = msg_id ?e) (messages d) = Some m" using stored by simp
  have v: "content ?e = content m \<or> validate_content (content ?e) = None" using ok by simp
  from save_stored [OF st v, of now] obtain doc d' where
    "save d ?e now = (Inr doc, d')"
    "find (\<lambda>x. msg_id x = msg_id ?e) (messages d') = Some doc"
    "msg_id doc = msg_id ?e" "content doc = content ?e" "edited doc = edited ?e"
    "createdAt doc = createdAt ?e" "isDeleted doc = isDeleted ?e"
    "readBy doc = readBy ?e" "reactions doc = reactions ?e"
    by auto
  with e show ?thesis by simp
qed

lemma valid_content_validate: "valid_content c \<Longrightarrow> validate_content c = None"
  by (auto simp: valid_content_def validate_content_def)

lemma ex_hi_fields: "createdAt ex_hi = 1000" "sender ex_hi = ex_aid" "isDeleted ex_hi = False"
  "content ex_hi = ''hi''" "isEdited (edited ex_hi) = False"
  by (simp_all add: ex_hi_def)

lemma ex_trim_hello: "js_trim ''hello '' = ''hello''"
  by (simp add: js_trim_def isSpace_def)

text \<open>
  C9. For a message that the edit route finds: whenever the current time is more than five
  minutes past the message's creation, the route answers with an error and leaves the
  collections as they are (for the sender of an undeleted message and a valid content the
  error is the one of the edit window); and an edit by the sender of an undeleted message,
  with a valid content, at most five minutes after the creation succeeds: the stored message
  has the new content, and its original content is kept as the snapshot.
\<close>

theorem put_message_edit_window:
  assumes found: "findMessageById d mid = Inr (Some m)"
  shows "(createdAt m + 5 * 60 * 1000 < now \<longrightarrow>
            (\<exists>e. put_message d u mid c now = (Inl e, d))) \<and>
         (createdAt m + 5 * 60 * 1000 < now \<and> valid_content (js_trim c) \<and>
          \<not> isDeleted m \<and> sender m = u_id u \<longrightarrow>
            put_message d u mid c now =
              (Inl (HttpError 400 ''Message can only be edited within 5 minutes''), d)) \<and>
         (now \<le> createdAt m + 5 * 60 * 1000 \<and> valid_content (js_trim c) \<and>
          \<not> isDeleted m \<and> sender m = u_id u \<longrightarrow>
            (\<exists>doc d'. put_message d u mid c now = (Inr doc, d') \<and>
               findMessageById d' mid = Inr (Some doc) \<and>
               content doc = js_trim c \<and> createdAt doc = createdAt m \<and>
               isEdited (edited doc) \<and> editedAt (edited doc) = Some now \<and>
               originalContent (edited doc) =
                 (if isEdited (edited m) then originalContent (edited m)
                  else Some (content m))))"
proof (intro conjI impI)
  assume late: "createdAt m + 5 * 60 * 1000 < now"
  then show "\<exists>e. put_message d u mid c now = (Inl e, d)"
    using found by (simp add: put_message_def Let_def)
next
  assume "createdAt m + 5 * 60 * 1000 < now \<and> valid_content (js_trim c) \<and>
          \<not> isDeleted m \<and> sender m = u_id u"
  then show "put_message d u mid c now =
      (Inl (HttpError 400 ''Message can only be edited within 5 minutes''), d)"
    using found by (simp add: put_message_def Let_def)
next
  assume h: "now \<le> createdAt m + 5 * 60 * 1000 \<and> valid_content (js_trim c) \<and>
          \<not> isDeleted m \<and> sender m = u_id u"
  note st = findMessageById_stored [OF found]
  have ok: "js_trim c = content m \<or> validate_content (js_trim c) = None"
    using h by (simp add: valid_content_validate)
  from editContent_stored [OF st(1) ok, of now] obtain doc d' where
    ed: "editContent d m (js_trim c) now = (Inr doc, d')"
    and fd: "find (\<lambda>x. msg_id x = msg_id m) (messages d') = Some doc"
    and rest: "content doc = js_trim c" "createdAt doc = createdAt m"
      "isEdited (edited doc)" "editedAt (edited doc) = Some now"
      "originalContent (edited doc) =
         (if isEdited (edited m) then originalContent (edited m) else Some (content m))"
    by blast
  have "put_message d u mid c now = (Inr doc, d')"
    using found h ed by (simp add: put_message_def Let_def)
  moreover have "findMessageById d' mid = Inr (Some doc)"
    using st(2) fd by (simp add: findMessageById_def)
  ultimately show "\<exists>doc d'. put_message d u mid c now = (Inr doc, d') \<and>
               findMessageById d' mid = Inr (Some doc) \<and>
               content doc = js_trim c \<and> createdAt doc = createdAt m \<and>
               isEdited (edited doc) \<and> editedAt (edited doc) = Some now \<and>
               originalContent (edited doc) =
                 (if isEdited (edited m) then originalContent (edited m)
                  else Some (content m))"
    using rest by blast
qed

theorem put_message_edit_window_witness:
  "findMessageById ex_db1 ex_mid = Inr (Some ex_hi) \<and> createdAt ex_hi = 1000 \<and>
   put_message ex_db1 ex_alice ex_mid ''hello '' (1000 + 6 * 60 * 1000) =
     (Inl (HttpError 400 ''Message can only be edited within 5 minutes''), ex_db1) \<and>
   (\<exists>doc d'. put_message ex_db1 ex_alice ex_mid ''hello '' (1000 + 4 * 60 * 1000) = (Inr doc, d') \<and>
      findMessageById d' ex_mid = Inr (Some doc) \<and> content doc = ''hello'' \<and>
      originalContent (edited doc) = Some ''hi'')"
proof -
  have v: "valid_content (js_trim ''hello '')"
    by (simp add: ex_trim_hello valid_content_def)
  from put_message_edit_window [OF ex_find_hi, of "1000 + 6 * 60 * 1000" ex_alice "''hello ''"]
    put_message_edit_window [OF ex_find_hi, of "1000 + 4 * 60 * 1000" ex_alice "''hello ''"]
  show ?thesis using v ex_find_hi
    by (simp add: ex_hi_fields ex_u_id ex_trim_hello) blast
qed

subsection \<open>Soft deletion and the read paths\<close>










lemmas ex_msg_defs = ex_hi_def ex_hi2_def ex_hi3_def ex_ghi4_def ex_hi_deleted_def
  ex_reply_def ex_ghi4_deleted_def



















lemma ex_gate_bob: "requireGroupMember (ex_with ms) ex_bob ex_gid = Inr ex_group"
  by (simp add: requireGroupMember_def findGroupById_def ex_cast)
     (simp add: ex_with_def ex_db0_def ex_group_def ex_bob_def isMember_def)








subsection \<open>Pages\<close>

text \<open>
  What a page is, for a page number from 1 and a positive page size: of the non-deleted
  messages of the conversation, newest first, those after the first \<open>(page - 1) * limit\<close>,
  up to \<open>limit * page\<close> of them.
\<close>

lemma getConversation_page:
  assumes "1 \<le> page" and "0 < limit"
  shows "getConversation d a b page limit =
     Inr (map (populate_listed d)
       (take (nat (limit * page)) (drop (nat ((page - 1) * limit))
         (newest_first (filter (\<lambda>m. conversation m = Some (conversationId a b) \<and> isDeleted m = False)
            (messages d))))))"
proof -
  from assms have pos: "0 < limit * page" by simp
  from assms have "0 \<le> (page - 1) * limit" by simp
  then have nskip: "\<not> (page - 1) * limit < 0" by linarith
  from pos have nz: "\<not> limit * page = 0" and ab: "\<bar>limit * page\<bar> = limit * page"
    by linarith+
  show ?thesis
    unfolding getConversation_def find_page_def mongo_limit_def Let_def
    by (simp only: if_not_P [OF nskip] if_not_P [OF nz] ab sum.case)
qed

text \<open>
  C4. With three messages in a conversation and a page size of 1, page 1 is the newest
  message, and page 2 holds two messages, the second and the third newest: more than the
  page size. The same happens with the messages of a group.
\<close>

theorem getConversation_second_page_overlong:
  "getConversation (ex_with [ex_hi, ex_hi2, ex_hi3]) ex_aid ex_bid 1 1 =
     Inr (map (populate_listed (ex_with [ex_hi, ex_hi2, ex_hi3])) [ex_hi3]) \<and>
   getConversation (ex_with [ex_hi, ex_hi2, ex_hi3]) ex_aid ex_bid 2 1 =
     Inr (map (populate_listed (ex_with [ex_hi, ex_hi2, ex_hi3])) [ex_hi2, ex_hi]) \<and>
   getGroupMessages
     (ex_with [ex_ghi4, ex_ghi4\<lparr>msg_id := ex_mid2, createdAt := 1500\<rparr>,
               ex_ghi4\<lparr>msg_id := ex_mid3, createdAt := 1800\<rparr>]) ex_gid 2 1 =
     Inr (map (populate_listed
                 (ex_with [ex_ghi4, ex_ghi4\<lparr>msg_id := ex_mid2, createdAt := 1500\<rparr>,
                           ex_ghi4\<lparr>msg_id := ex_mid3, createdAt := 1800\<rparr>]))
            [ex_ghi4\<lparr>msg_id := ex_mid2, createdAt := 1500\<rparr>, ex_ghi4])"
proof -
  let ?D = "ex_with [ex_hi, ex_hi2, ex_hi3]"
  let ?G = "ex_with [ex_ghi4, ex_ghi4\<lparr>msg_id := ex_mid2, createdAt := 1500\<rparr>,
                     ex_ghi4\<lparr>msg_id := ex_mid3, createdAt := 1800\<rparr>]"
  have "find_page (messages ?D)
          (\<lambda>m. conversation m = Some (conversationId ex_aid ex_bid) \<and> isDeleted m = False)
          (1 * 1) ((1 - 1) * 1) = Inr [ex_hi3]"
    by (simp add: find_page_def mongo_limit_def newest_first_def ex_with_def ex_conv ex_msg_defs)
  then have 1: "getConversation ?D ex_aid ex_bid 1 1 = Inr (map (populate_listed ?D) [ex_hi3])"
    by (simp add: getConversation_def Let_def)
  have "find_page (messages ?D)
          (\<lambda>m. conversation m = Some (conversationId ex_aid ex_bid) \<and> isDeleted m = False)
          (1 * 2) ((2 - 1) * 1) = Inr [ex_hi2, ex_hi]"
    by (simp add: find_page_def mongo_limit_def newest_first_def ex_with_def ex_conv ex_msg_defs)
  then have 2: "getConversation ?D ex_aid ex_bid 2 1 =
      Inr (map (populate_listed ?D) [ex_hi2, ex_hi])"
    by (simp add: getConversation_def Let_def)
  have "find_page (messages ?G) (\<lambda>m. msg_group m = Some ex_gid \<and> isDeleted m = False)
          (1 * 2) ((2 - 1) * 1) =
        Inr [ex_ghi4\<lparr>msg_id := ex_mid2, createdAt := 1500\<rparr>, ex_ghi4]"
    by (simp add: find_page_def mongo_limit_def newest_first_def ex_with_def ex_msg_defs)
  then have 3: "getGroupMessages ?G ex_gid 2 1 =
      Inr (map (populate_listed ?G) [ex_ghi4\<lparr>msg_id := ex_mid2, createdAt := 1500\<rparr>, ex_ghi4])"
    by (simp add: getGroupMessages_def ex_cast)
  from 1 2 3 show ?thesis by (intro conjI)
qed

subsection \<open>The unread count\<close>

text \<open>
  The route's count is the count in the spec's words plus the number of unread, non-deleted
  messages that the user has sent to themselves.
\<close>

lemma filter_split_count:
  assumes "\<And>x. P x \<longleftrightarrow> Q x \<or> R x" and "\<And>x. \<not> (Q x \<and> R x)"
  shows "length (filter P xs) = length (filter Q xs) + length (filter R xs)"
  using assms by (induction xs) auto

lemma unread_count_difference:
  "unread_count d u = unread_count_spec d u +
     length (filter (\<lambda>m. recipient m = Some (u_id u) \<and> sender m = u_id u \<and>
                         notReadBy (u_id u) m \<and> isDeleted m = False) (messages d))"
  unfolding unread_count_def unread_count_spec_def
  by (rule filter_split_count) (auto simp: unread_filter_def split: option.splits)

lemma ex_save_note:
  "save_new ex_db0 (newMessage ex_mid ex_aid ''note'' ''text'' None (Some ex_aid) None) 1000 =
     (Inr ex_note, ex_with [ex_note])"
proof -
  have "conversationId ex_aid ex_aid = ex_aid @ ''_'' @ ex_aid"
    by (simp add: conversationId_def)
  then show ?thesis
    by (simp add: save_new_def validate_def validate_content_def
        validate_type_def newMessage_def pre_save_def Let_def ex_note_def ex_hi_def ex_with_def
        ex_db0_def)
qed

lemma ex_note_post:
  "post_direct ex_db0 ex_alice ex_aid ''note'' None ex_mid 1000 = (Inr ex_note, ex_with [ex_note])"
proof -
  have "isMongoId ex_aid" by (simp add: isMongoId_def isHexDigit_def ex_aid_def)
  moreover have "js_trim ''note'' = ''note''" by (simp add: js_trim_def isSpace_def)
  ultimately show ?thesis
    by (simp add: post_direct_def valid_content_def valid_type_def ex_find_users
        ex_cast ex_u_id type_or_text_def ex_save_note)
qed

text \<open>
  C5. Alice sends a note to herself through \<open>POST /direct\<close>. The route then counts one
  unread message for her, while no message with a sender other than Alice is addressed to her.
\<close>

theorem unread_count_counts_note_to_self:
  "post_direct ex_db0 ex_alice ex_aid ''note'' None ex_mid 1000 =
     (Inr ex_note, ex_with [ex_note]) \<and>
   unread_count (ex_with [ex_note]) ex_alice = 1 \<and>
   unread_count_spec (ex_with [ex_note]) ex_alice = 0"
proof -
  have "unread_count (ex_with [ex_note]) ex_alice = 1"
    by (simp add: unread_count_def unread_filter_def notReadBy_def ex_with_def ex_note_def
        ex_hi_def ex_u_id)
  moreover have "unread_count_spec (ex_with [ex_note]) ex_alice = 0"
    by (simp add: unread_count_spec_def notReadBy_def ex_with_def ex_note_def
        ex_hi_def ex_u_id)
  ultimately show ?thesis using ex_note_post by simp
qed

subsection \<open>Fetching marks as read\<close>

lemma updateMany_frame:
  "users (updateMany d cond upd now) = users d" "groups (updateMany d cond upd now) = groups d"
  "messages (updateMany d cond upd now) =
     map (\<lambda>m. if cond m then (upd m)\<lparr>updatedAt := now\<rparr> else m) (messages d)"
  by (simp_all add: updateMany_def)

lemma get_conversation_messages_Inr:
  assumes "get_conversation_messages d u other qp ql now = (Inr r, d')"
  shows "d' = updateMany d
           (\<lambda>m. Some (sender m) = castObjectId other \<and> recipient m = Some (u_id u) \<and>
                notReadBy (u_id u) m)
           (pushReadBy (u_id u) now) now"
  using assms
  by (auto simp: get_conversation_messages_def Let_def split: sum.splits option.splits)

lemma get_group_messages_Inr:
  assumes "get_group_messages d u gid qp ql now = (Inr r, d')"
  shows "d' = updateMany d
           (\<lambda>m. msg_group m = castObjectId gid \<and> sender m \<noteq> u_id u \<and> notReadBy (u_id u) m)
           (pushReadBy (u_id u) now) now"
  using assms
  by (auto simp: get_group_messages_def Let_def split: sum.splits option.splits)

lemma ex_find_users_with:
  "findUserById (ex_with ms) ex_bid = Inr (Some ex_bob)"
  "findUserById (ex_with ms) ex_aid = Inr (Some ex_alice)"
  by (simp_all add: findUserById_def ex_cast)
     (simp_all add: ex_with_def ex_db0_def ex_alice_def ex_bob_def ex_ids)

lemma ex_conv_ba: "conversationId ex_bid ex_aid = ex_aid @ ''_'' @ ex_bid"
proof -
  have "\<not> ex_bid \<le> ex_aid" by (simp add: ex_aid_def ex_bid_def)
  then show ?thesis by (simp add: conversationId_def)
qed

lemma ex_fetch:
  "get_conversation_messages (ex_with [ex_hi]) ex_bob ex_aid None None 2000 =
     (Inr \<lparr>pr_messages = [populate_listed (ex_with [ex_hi]) ex_hi], pr_page = 1,
           pr_hasMore = False\<rparr>, ex_with [ex_hi_read])"
proof -
  have "find_page (messages (ex_with [ex_hi]))
          (\<lambda>m. conversation m = Some (conversationId ex_bid ex_aid) \<and> isDeleted m = False)
          (50 * 1) ((1 - 1) * 50) = Inr [ex_hi]"
    by (simp add: find_page_def mongo_limit_def newest_first_def ex_with_def ex_conv_ba ex_hi_def)
  then have g: "getConversation (ex_with [ex_hi]) ex_bid ex_aid 1 50 =
      Inr [populate_listed (ex_with [ex_hi]) ex_hi]"
    by (simp add: getConversation_def Let_def)
  have u: "updateMany (ex_with [ex_hi])
       (\<lambda>m. sender m = ex_aid \<and> recipient m = Some ex_bid \<and> notReadBy ex_bid m)
       (pushReadBy ex_bid 2000) 2000 = ex_with [ex_hi_read]"
    by (simp add: updateMany_def notReadBy_def pushReadBy_def ex_with_def ex_hi_def
        ex_hi_read_def)
  show ?thesis
    by (simp add: get_conversation_messages_def parseIntOr_def ex_find_users_with ex_u_id
        ex_cast g u Let_def)
qed

lemma ex_fetch_group:
  "get_group_messages (ex_with [ex_ghi4]) ex_bob ex_gid None None 2000 =
     (Inr \<lparr>pr_messages = [populate_listed (ex_with [ex_ghi4]) ex_ghi4], pr_page = 1,
           pr_hasMore = False\<rparr>,
      ex_with [ex_ghi4\<lparr>readBy := [\<lparr>rb_user = ex_bid, readAt = 2000\<rparr>], updatedAt := 2000\<rparr>])"
proof -
  have "find_page (messages (ex_with [ex_ghi4]))
          (\<lambda>m. msg_group m = Some ex_gid \<and> isDeleted m = False)
          (50 * 1) ((1 - 1) * 50) = Inr [ex_ghi4]"
    by (simp add: find_page_def mongo_limit_def newest_first_def ex_with_def ex_hi_def
        ex_ghi4_def)
  then have g: "getGroupMessages (ex_with [ex_ghi4]) ex_gid 1 50 =
      Inr [populate_listed (ex_with [ex_ghi4]) ex_ghi4]"
    by (simp add: getGroupMessages_def ex_cast)
  have u: "updateMany (ex_with [ex_ghi4])
       (\<lambda>m. msg_group m = Some ex_gid \<and> sender m \<noteq> ex_bid \<and> notReadBy ex_bid m)
       (pushReadBy ex_bid 2000) 2000 =
     ex_with [ex_ghi4\<lparr>readBy := [\<lparr>rb_user = ex_bid, readAt = 2000\<rparr>], updatedAt := 2000\<rparr>]"
    by (simp add: updateMany_def notReadBy_def pushReadBy_def ex_with_def ex_hi_def
        ex_ghi4_def ex_ids)
  show ?thesis
    by (simp add: get_group_messages_def parseIntOr_def ex_gate_bob ex_u_id ex_cast g u Let_def)
qed

text \<open>
  C10, as amended. A successful \<open>GET /conversations/:userId\<close> appends a \<open>readBy\<close> entry
  for the requester to every message that the other user sent to the requester and that the
  requester has not read, and a successful \<open>GET /groups/:groupId\<close> does so for every
  message of the group that the requester did not send and has not read. Of these messages
  only \<open>readBy\<close> and the update timestamp \<open>updatedAt\<close> change; all other messages, the
  users and the groups stay as they are.
\<close>

theorem fetch_marks_read:
  "(get_conversation_messages d u other qp ql now = (Inr r1, d1) \<longrightarrow>
      users d1 = users d \<and> groups d1 = groups d \<and>
      messages d1 =
        map (\<lambda>m. if Some (sender m) = castObjectId other \<and> recipient m = Some (u_id u) \<and>
                    \<not> list_ex (\<lambda>e. rb_user e = u_id u) (readBy m)
                 then m\<lparr>readBy := readBy m @ [\<lparr>rb_user = u_id u, readAt = now\<rparr>],
                        updatedAt := now\<rparr>
                 else m) (messages d)) \<and>
   (get_group_messages d u gid qp ql now = (Inr r2, d2) \<longrightarrow>
      users d2 = users d \<and> groups d2 = groups d \<and>
      messages d2 =
        map (\<lambda>m. if msg_group m = castObjectId gid \<and> sender m \<noteq> u_id u \<and>
                    \<not> list_ex (\<lambda>e. rb_user e = u_id u) (readBy m)
                 then m\<lparr>readBy := readBy m @ [\<lparr>rb_user = u_id u, readAt = now\<rparr>],
                        updatedAt := now\<rparr>
                 else m) (messages d))"
proof (intro conjI impI)
  assume a: "get_conversation_messages d u other qp ql now = (Inr r1, d1)"
  note d1 = get_conversation_messages_Inr [OF a]
  show "users d1 = users d" "groups d1 = groups d"
    unfolding d1 by (simp_all add: updateMany_frame)
  show "messages d1 =
        map (\<lambda>m. if Some (sender m) = castObjectId other \<and> recipient m = Some (u_id u) \<and>
                    \<not> list_ex (\<lambda>e. rb_user e = u_id u) (readBy m)
                 then m\<lparr>readBy := readBy m @ [\<lparr>rb_user = u_id u, readAt = now\<rparr>],
                        updatedAt := now\<rparr>
                 else m) (messages d)"
    unfolding d1 by (simp add: updateMany_frame notReadBy_def pushReadBy_def)
next
  assume a: "get_group_messages d u gid qp ql now = (Inr r2, d2)"
  note d2 = get_group_messages_Inr [OF a]
  show "users d2 = users d" "groups d2 = groups d"
    unfolding d2 by (simp_all add: updateMany_frame)
  show "messages d2 =
        map (\<lambda>m. if msg_group m = castObjectId gid \<and> sender m \<noteq> u_id u \<and>
                    \<not> list_ex (\<lambda>e. rb_user e = u_id u) (readBy m)
                 then m\<lparr>readBy := readBy m @ [\<lparr>rb_user = u_id u, readAt = now\<rparr>],
                        updatedAt := now\<rparr>
                 else m) (messages d)"
    unfolding d2 by (simp add: updateMany_frame notReadBy_def pushReadBy_def)
qed

theorem fetch_marks_read_witness:
  "get_conversation_messages (ex_with [ex_hi]) ex_bob ex_aid None None 2000 =
     (Inr \<lparr>pr_messages = [populate_listed (ex_with [ex_hi]) ex_hi], pr_page = 1,
           pr_hasMore = False\<rparr>, ex_with [ex_hi_read]) \<and>
   messages (ex_with [ex_hi_read]) =
     [ex_hi\<lparr>readBy := readBy ex_hi @ [\<lparr>rb_user = ex_bid, readAt = 2000\<rparr>], updatedAt := 2000\<rparr>] \<and>
   get_group_messages (ex_with [ex_ghi4]) ex_bob ex_gid None None 2000 =
     (Inr \<lparr>pr_messages = [populate_listed (ex_with [ex_ghi4]) ex_ghi4], pr_page = 1,
           pr_hasMore = False\<rparr>,
      ex_with [ex_ghi4\<lparr>readBy := [\<lparr>rb_user = ex_bid, readAt = 2000\<rparr>], updatedAt := 2000\<rparr>]) \<and>
   messages (ex_with [ex_ghi4\<lparr>readBy := [\<lparr>rb_user = ex_bid, readAt = 2000\<rparr>],
                              updatedAt := 2000\<rparr>]) =
     [ex_ghi4\<lparr>readBy := readBy ex_ghi4 @ [\<lparr>rb_user = ex_bid, readAt = 2000\<rparr>],
              updatedAt := 2000\<rparr>]"
proof -
  have m: "messages (ex_with [ex_hi]) = [ex_hi]" "messages (ex_with [ex_ghi4]) = [ex_ghi4]"
    by (simp_all add: ex_with_def)
  have f: "sender ex_hi = ex_aid" "recipient ex_hi = Some ex_bid" "readBy ex_hi = []"
    "sender ex_ghi4 = ex_aid" "msg_group ex_ghi4 = Some ex_gid" "readBy ex_ghi4 = []"
    by (simp_all add: ex_hi_def ex_ghi4_def)
  from fetch_marks_read [where d = "ex_with [ex_hi]" and u = ex_bob and other = ex_aid
      and qp = None and ql = None and now = 2000
      and ?r1.0 = "\<lparr>pr_messages = [populate_listed (ex_with [ex_hi]) ex_hi], pr_page = 1,
                     pr_hasMore = False\<rparr>"
      and ?d1.0 = "ex_with [ex_hi_read]"]
  have 1: "messages (ex_with [ex_hi_read]) =
     [ex_hi\<lparr>readBy := readBy ex_hi @ [\<lparr>rb_user = ex_bid, readAt = 2000\<rparr>], updatedAt := 2000\<rparr>]"
    by (simp add: ex_fetch m f ex_u_id ex_cast ex_ids)
  from fetch_marks_read [where d = "ex_with [ex_ghi4]" and u = ex_bob and gid = ex_gid
      and qp = None and ql = None and now = 2000
      and ?r2.0 = "\<lparr>pr_messages = [populate_listed (ex_with [ex_ghi4]) ex_ghi4], pr_page = 1,
                     pr_hasMore = False\<rparr>"
      and ?d2.0 = "ex_with [ex_ghi4\<lparr>readBy := [\<lparr>rb_user = ex_bid, readAt = 2000\<rparr>],
                                      updatedAt := 2000\<rparr>]"]
  have 2: "messages (ex_with [ex_ghi4\<lparr>readBy := [\<lparr>rb_user = ex_bid, readAt = 2000\<rparr>],
                              updatedAt := 2000\<rparr>]) =
     [ex_ghi4\<lparr>readBy := readBy ex_ghi4 @ [\<lparr>rb_user = ex_bid, readAt = 2000\<rparr>],
              updatedAt := 2000\<rparr>]"
    by (simp add: ex_fetch_group m f ex_u_id ex_cast ex_ids)
  from ex_fetch ex_fetch_group 1 2 show ?thesis by (intro conjI)
qed

text \<open>
  C10 as stated, with no other stored field changed, fails on the update timestamp: the
  message that Bob fetches is stored with \<open>updatedAt\<close> 2000 in place of 1000, so it is not
  the earlier message with only the \<open>readBy\<close> entry appended.
\<close>

theorem fetch_changes_updatedAt_counterexample:
  "get_conversation_messages (ex_with [ex_hi]) ex_bob ex_aid None None 2000 =
     (Inr \<lparr>pr_messages = [populate_listed (ex_with [ex_hi]) ex_hi], pr_page = 1,
           pr_hasMore = False\<rparr>, ex_with [ex_hi_read]) \<and>
   messages (ex_with [ex_hi]) = [ex_hi] \<and>
   messages (ex_with [ex_hi_read]) = [ex_hi_read] \<and>
   updatedAt ex_hi = 1000 \<and> updatedAt ex_hi_read = 2000 \<and>
   ex_hi_read \<noteq> ex_hi\<lparr>readBy := readBy ex_hi @ [\<lparr>rb_user = ex_bid, readAt = 2000\<rparr>]\<rparr>"
proof -
  have "ex_hi_read \<noteq> ex_hi\<lparr>readBy := readBy ex_hi @ [\<lparr>rb_user = ex_bid, readAt = 2000\<rparr>]\<rparr>"
    by (simp add: ex_hi_read_def ex_hi_def)
  then show ?thesis
    by (simp add: ex_fetch) (simp add: ex_with_def ex_hi_read_def ex_hi_def)
qed

end
